theory Spec2Isabelle
  imports Complex_Main "HOL-Library.Word" "HOL-Library.Monad_Syntax"
begin

section \<open>Python values and the libraries the client calls\<close>

text \<open>
  The values that \<^verbatim>\<open>json.loads\<close> returns and that \<^verbatim>\<open>model_dump\<close> produces: None, booleans,
  integers, floats, strings, lists and dictionaries with string keys. A dictionary is an
  association list; a key is looked up with \<open>map_of\<close>.
\<close>

datatype pyval =
    PNone
  | PBool bool
  | PInt int
  | PFloat real
  | PStr string
  | PList "pyval list"
  | PDict "(string \<times> pyval) list"

type_synonym pydict = "(string \<times> pyval) list"

type_synonym bytes = "8 word list"

text \<open>
  \<^verbatim>\<open>json\<close> and \<^verbatim>\<open>pydantic\<close> are libraries, not code of the client; what the client's
  behaviour takes from them is a parameter: the JSON parser (\<open>None\<close> when it raises
  \<^verbatim>\<open>JSONDecodeError\<close>), and what the validation of a \<^verbatim>\<open>bool\<close>, \<^verbatim>\<open>int\<close> or \<^verbatim>\<open>float\<close> field
  does with a value of another type (its lax coercions).
\<close>

record pylib =
  json_loads :: "string \<Rightarrow> pyval option"
  lax_bool :: "pyval \<Rightarrow> bool option"
  lax_int :: "pyval \<Rightarrow> int option"
  lax_float :: "pyval \<Rightarrow> real option"

subsection \<open>Field validation\<close>

text \<open>
  A value of the field's own type is accepted as it is, None is refused by a field that is
  not \<^verbatim>\<open>Optional\<close>, a \<^verbatim>\<open>str\<close> field accepts strings only.
\<close>

definition val_str :: "pyval \<Rightarrow> string option" where
  "val_str v = (case v of PStr s \<Rightarrow> Some s | _ \<Rightarrow> None)"

definition val_bool :: "pylib \<Rightarrow> pyval \<Rightarrow> bool option" where
  "val_bool L v = (case v of PBool b \<Rightarrow> Some b | PNone \<Rightarrow> None | _ \<Rightarrow> lax_bool L v)"

definition val_int :: "pylib \<Rightarrow> pyval \<Rightarrow> int option" where
  "val_int L v = (case v of PInt i \<Rightarrow> Some i | PNone \<Rightarrow> None | _ \<Rightarrow> lax_int L v)"

definition val_float :: "pylib \<Rightarrow> pyval \<Rightarrow> real option" where
  "val_float L v = (case v of PFloat r \<Rightarrow> Some r | PNone \<Rightarrow> None | _ \<Rightarrow> lax_float L v)"

definition val_dict :: "pyval \<Rightarrow> pydict option" where
  "val_dict v = (case v of PDict d \<Rightarrow> Some d | _ \<Rightarrow> None)"

fun val_all :: "(pyval \<Rightarrow> 'a option) \<Rightarrow> pyval list \<Rightarrow> 'a list option" where
  "val_all val [] = Some []"
| "val_all val (v # vs) =
     (case val v of None \<Rightarrow> None
      | Some x \<Rightarrow> (case val_all val vs of None \<Rightarrow> None | Some xs \<Rightarrow> Some (x # xs)))"

definition val_list :: "(pyval \<Rightarrow> 'a option) \<Rightarrow> pyval \<Rightarrow> 'a list option" where
  "val_list val v = (case v of PList vs \<Rightarrow> val_all val vs | _ \<Rightarrow> None)"

text \<open>\<^verbatim>\<open>Field(...)\<close>: a required field; a missing key is a validation error.\<close>

definition field_req :: "(pyval \<Rightarrow> 'a option) \<Rightarrow> pydict \<Rightarrow> string \<Rightarrow> 'a option" where
  "field_req val d k = (case map_of d k of None \<Rightarrow> None | Some v \<Rightarrow> val v)"

text \<open>\<^verbatim>\<open>Field(default=...)\<close> of a type that is not \<^verbatim>\<open>Optional\<close>: a missing key gives the default.\<close>

definition field_dflt :: "(pyval \<Rightarrow> 'a option) \<Rightarrow> 'a \<Rightarrow> pydict \<Rightarrow> string \<Rightarrow> 'a option" where
  "field_dflt val dflt d k = (case map_of d k of None \<Rightarrow> Some dflt | Some v \<Rightarrow> val v)"

text \<open>
  \<^verbatim>\<open>Optional[T] = Field(default=...)\<close>: a missing key gives the default, an explicit None is
  kept as None.
\<close>

definition field_opt ::
  "(pyval \<Rightarrow> 'a option) \<Rightarrow> 'a option \<Rightarrow> pydict \<Rightarrow> string \<Rightarrow> 'a option option" where
  "field_opt val dflt d k =
     (case map_of d k of
        None \<Rightarrow> Some dflt
      | Some PNone \<Rightarrow> Some None
      | Some v \<Rightarrow> map_option Some (val v))"

text \<open>\<^verbatim>\<open>type: Literal["x"] = "x"\<close>: a missing key gives the default, any other value is refused.\<close>

definition field_literal :: "pydict \<Rightarrow> string \<Rightarrow> bool" where
  "field_literal d v = (case map_of d ''type'' of None \<Rightarrow> True | Some x \<Rightarrow> x = PStr v)"

text \<open>\<^verbatim>\<open>model_dump(exclude_none=True)\<close> leaves out a field whose value is None.\<close>

definition dump_opt :: "string \<Rightarrow> ('a \<Rightarrow> pyval) \<Rightarrow> 'a option \<Rightarrow> pydict" where
  "dump_opt k f v = (case v of None \<Rightarrow> [] | Some x \<Rightarrow> [(k, f x)])"

section \<open>Message schema (types.py)\<close>

subsection \<open>Configuration objects\<close>

record Pronunciation =
  pr_word :: string
  pr_pronunciation :: string

record STTConfig =
  stt_provider :: string
  stt_language :: string
  stt_sample_rate :: int
  stt_channels :: int
  stt_punctuation :: bool
  stt_encoding :: string
  stt_model :: string

record TTSConfig =
  tts_provider :: string
  tts_voice_id :: string
  tts_speaking_rate :: real
  tts_audio_format :: string
  tts_sample_rate :: int
  tts_connection_timeout :: int
  tts_request_timeout :: int
  tts_model :: string
  tts_pronunciations :: "Pronunciation list"

record LiveKitConfig =
  lk_room_name :: string
  lk_enable_recording :: "bool option"
  lk_recording_file_key :: "string option"
  lk_sayna_participant_identity :: "string option"
  lk_sayna_participant_name :: "string option"
  lk_listen_participants :: "string list option"

definition dump_Pronunciation :: "Pronunciation \<Rightarrow> pyval" where
  "dump_Pronunciation p =
     PDict [(''word'', PStr (pr_word p)), (''pronunciation'', PStr (pr_pronunciation p))]"

definition val_Pronunciation :: "pyval \<Rightarrow> Pronunciation option" where
  "val_Pronunciation v =
     (case v of
        PDict d \<Rightarrow> do {
          w \<leftarrow> field_req val_str d ''word'';
          p \<leftarrow> field_req val_str d ''pronunciation'';
          Some \<lparr>pr_word = w, pr_pronunciation = p\<rparr> }
      | _ \<Rightarrow> None)"

definition dump_STTConfig :: "STTConfig \<Rightarrow> pyval" where
  "dump_STTConfig s =
     PDict [(''provider'', PStr (stt_provider s)),
            (''language'', PStr (stt_language s)),
            (''sample_rate'', PInt (stt_sample_rate s)),
            (''channels'', PInt (stt_channels s)),
            (''punctuation'', PBool (stt_punctuation s)),
            (''encoding'', PStr (stt_encoding s)),
            (''model'', PStr (stt_model s))]"

definition val_STTConfig :: "pylib \<Rightarrow> pyval \<Rightarrow> STTConfig option" where
  "val_STTConfig L v =
     (case v of
        PDict d \<Rightarrow> do {
          p \<leftarrow> field_req val_str d ''provider'';
          l \<leftarrow> field_req val_str d ''language'';
          r \<leftarrow> field_req (val_int L) d ''sample_rate'';
          c \<leftarrow> field_req (val_int L) d ''channels'';
          u \<leftarrow> field_req (val_bool L) d ''punctuation'';
          e \<leftarrow> field_req val_str d ''encoding'';
          m \<leftarrow> field_req val_str d ''model'';
          Some \<lparr>stt_provider = p, stt_language = l, stt_sample_rate = r, stt_channels = c,
                stt_punctuation = u, stt_encoding = e, stt_model = m\<rparr> }
      | _ \<Rightarrow> None)"

definition dump_TTSConfig :: "TTSConfig \<Rightarrow> pyval" where
  "dump_TTSConfig t =
     PDict [(''provider'', PStr (tts_provider t)),
            (''voice_id'', PStr (tts_voice_id t)),
            (''speaking_rate'', PFloat (tts_speaking_rate t)),
            (''audio_format'', PStr (tts_audio_format t)),
            (''sample_rate'', PInt (tts_sample_rate t)),
            (''connection_timeout'', PInt (tts_connection_timeout t)),
            (''request_timeout'', PInt (tts_request_timeout t)),
            (''model'', PStr (tts_model t)),
            (''pronunciations'', PList (map dump_Pronunciation (tts_pronunciations t)))]"

definition val_TTSConfig :: "pylib \<Rightarrow> pyval \<Rightarrow> TTSConfig option" where
  "val_TTSConfig L v =
     (case v of
        PDict d \<Rightarrow> do {
          p \<leftarrow> field_req val_str d ''provider'';
          i \<leftarrow> field_req val_str d ''voice_id'';
          r \<leftarrow> field_req (val_float L) d ''speaking_rate'';
          f \<leftarrow> field_req val_str d ''audio_format'';
          s \<leftarrow> field_req (val_int L) d ''sample_rate'';
          c \<leftarrow> field_req (val_int L) d ''connection_timeout'';
          q \<leftarrow> field_req (val_int L) d ''request_timeout'';
          m \<leftarrow> field_req val_str d ''model'';
          ps \<leftarrow> field_dflt (val_list val_Pronunciation) [] d ''pronunciations'';
          Some \<lparr>tts_provider = p, tts_voice_id = i, tts_speaking_rate = r, tts_audio_format = f,
                tts_sample_rate = s, tts_connection_timeout = c, tts_request_timeout = q,
                tts_model = m, tts_pronunciations = ps\<rparr> }
      | _ \<Rightarrow> None)"

definition dump_LiveKitConfig :: "LiveKitConfig \<Rightarrow> pyval" where
  "dump_LiveKitConfig k =
     PDict ([(''room_name'', PStr (lk_room_name k))]
            @ dump_opt ''enable_recording'' PBool (lk_enable_recording k)
            @ dump_opt ''recording_file_key'' PStr (lk_recording_file_key k)
            @ dump_opt ''sayna_participant_identity'' PStr (lk_sayna_participant_identity k)
            @ dump_opt ''sayna_participant_name'' PStr (lk_sayna_participant_name k)
            @ dump_opt ''listen_participants'' (\<lambda>xs. PList (map PStr xs))
                (lk_listen_participants k))"

definition val_LiveKitConfig :: "pylib \<Rightarrow> pyval \<Rightarrow> LiveKitConfig option" where
  "val_LiveKitConfig L v =
     (case v of
        PDict d \<Rightarrow> do {
          r \<leftarrow> field_req val_str d ''room_name'';
          e \<leftarrow> field_opt (val_bool L) (Some False) d ''enable_recording'';
          f \<leftarrow> field_opt val_str None d ''recording_file_key'';
          i \<leftarrow> field_opt val_str (Some ''sayna-ai'') d ''sayna_participant_identity'';
          n \<leftarrow> field_opt val_str (Some ''Sayna AI'') d ''sayna_participant_name'';
          ps \<leftarrow> field_opt (val_list val_str) (Some []) d ''listen_participants'';
          Some \<lparr>lk_room_name = r, lk_enable_recording = e, lk_recording_file_key = f,
                lk_sayna_participant_identity = i, lk_sayna_participant_name = n,
                lk_listen_participants = ps\<rparr> }
      | _ \<Rightarrow> None)"

subsection \<open>Outgoing messages (client to server)\<close>

record ConfigMessage =
  cfg_audio :: "bool option"
  cfg_stt_config :: "STTConfig option"
  cfg_tts_config :: "TTSConfig option"
  cfg_livekit :: "LiveKitConfig option"

record SpeakMessage =
  sp_text :: string
  sp_flush :: "bool option"
  sp_allow_interruption :: "bool option"

datatype ClearMessage = ClearMessage

record SendMessageMessage =
  sm_message :: string
  sm_role :: string
  sm_topic :: "string option"
  sm_debug :: "pydict option"

definition dump_ConfigMessage :: "ConfigMessage \<Rightarrow> pydict" where
  "dump_ConfigMessage m =
     [(''type'', PStr ''config'')]
     @ dump_opt ''audio'' PBool (cfg_audio m)
     @ dump_opt ''stt_config'' dump_STTConfig (cfg_stt_config m)
     @ dump_opt ''tts_config'' dump_TTSConfig (cfg_tts_config m)
     @ dump_opt ''livekit'' dump_LiveKitConfig (cfg_livekit m)"

definition load_ConfigMessage :: "pylib \<Rightarrow> pydict \<Rightarrow> ConfigMessage option" where
  "load_ConfigMessage L d =
     (if field_literal d ''config'' then do {
        a \<leftarrow> field_opt (val_bool L) (Some True) d ''audio'';
        s \<leftarrow> field_opt (val_STTConfig L) None d ''stt_config'';
        t \<leftarrow> field_opt (val_TTSConfig L) None d ''tts_config'';
        k \<leftarrow> field_opt (val_LiveKitConfig L) None d ''livekit'';
        Some \<lparr>cfg_audio = a, cfg_stt_config = s, cfg_tts_config = t, cfg_livekit = k\<rparr> }
      else None)"

definition dump_SpeakMessage :: "SpeakMessage \<Rightarrow> pydict" where
  "dump_SpeakMessage m =
     [(''type'', PStr ''speak''), (''text'', PStr (sp_text m))]
     @ dump_opt ''flush'' PBool (sp_flush m)
     @ dump_opt ''allow_interruption'' PBool (sp_allow_interruption m)"

definition load_SpeakMessage :: "pylib \<Rightarrow> pydict \<Rightarrow> SpeakMessage option" where
  "load_SpeakMessage L d =
     (if field_literal d ''speak'' then do {
        t \<leftarrow> field_req val_str d ''text'';
        f \<leftarrow> field_opt (val_bool L) None d ''flush'';
        a \<leftarrow> field_opt (val_bool L) None d ''allow_interruption'';
        Some \<lparr>sp_text = t, sp_flush = f, sp_allow_interruption = a\<rparr> }
      else None)"

definition dump_ClearMessage :: "ClearMessage \<Rightarrow> pydict" where
  "dump_ClearMessage m = [(''type'', PStr ''clear'')]"

definition load_ClearMessage :: "pydict \<Rightarrow> ClearMessage option" where
  "load_ClearMessage d = (if field_literal d ''clear'' then Some ClearMessage else None)"

definition dump_SendMessageMessage :: "SendMessageMessage \<Rightarrow> pydict" where
  "dump_SendMessageMessage m =
     [(''type'', PStr ''send_message''),
      (''message'', PStr (sm_message m)),
      (''role'', PStr (sm_role m))]
     @ dump_opt ''topic'' PStr (sm_topic m)
     @ dump_opt ''debug'' PDict (sm_debug m)"

definition load_SendMessageMessage :: "pydict \<Rightarrow> SendMessageMessage option" where
  "load_SendMessageMessage d =
     (if field_literal d ''send_message'' then do {
        m \<leftarrow> field_req val_str d ''message'';
        r \<leftarrow> field_req val_str d ''role'';
        t \<leftarrow> field_opt val_str None d ''topic'';
        g \<leftarrow> field_opt val_dict None d ''debug'';
        Some \<lparr>sm_message = m, sm_role = r, sm_topic = t, sm_debug = g\<rparr> }
      else None)"

subsection \<open>Incoming messages (server to client)\<close>

record ReadyMessage =
  rm_livekit_room_name :: "string option"
  rm_livekit_url :: string
  rm_sayna_participant_identity :: "string option"
  rm_sayna_participant_name :: "string option"

record STTResultMessage =
  sr_transcript :: string
  sr_is_final :: bool
  sr_is_speech_final :: bool
  sr_confidence :: real

record ErrorMessage =
  em_message :: string

record SaynaMessage =
  sy_message :: "string option"
  sy_data :: "string option"
  sy_identity :: string
  sy_topic :: string
  sy_room :: string
  sy_timestamp :: int

record MessageMessage =
  mm_message :: SaynaMessage

record Participant =
  pa_identity :: string
  pa_name :: "string option"
  pa_room :: string
  pa_timestamp :: int

record ParticipantDisconnectedMessage =
  pd_participant :: Participant

record TTSPlaybackCompleteMessage =
  pc_timestamp :: int

definition load_ReadyMessage :: "pydict \<Rightarrow> ReadyMessage option" where
  "load_ReadyMessage d =
     (if field_literal d ''ready'' then do {
        r \<leftarrow> field_opt val_str None d ''livekit_room_name'';
        u \<leftarrow> field_req val_str d ''livekit_url'';
        i \<leftarrow> field_opt val_str None d ''sayna_participant_identity'';
        n \<leftarrow> field_opt val_str None d ''sayna_participant_name'';
        Some \<lparr>rm_livekit_room_name = r, rm_livekit_url = u,
              rm_sayna_participant_identity = i, rm_sayna_participant_name = n\<rparr> }
      else None)"

definition load_STTResultMessage :: "pylib \<Rightarrow> pydict \<Rightarrow> STTResultMessage option" where
  "load_STTResultMessage L d =
     (if field_literal d ''stt_result'' then do {
        t \<leftarrow> field_req val_str d ''transcript'';
        f \<leftarrow> field_req (val_bool L) d ''is_final'';
        s \<leftarrow> field_req (val_bool L) d ''is_speech_final'';
        c \<leftarrow> field_req (val_float L) d ''confidence'';
        Some \<lparr>sr_transcript = t, sr_is_final = f, sr_is_speech_final = s, sr_confidence = c\<rparr> }
      else None)"

definition load_ErrorMessage :: "pydict \<Rightarrow> ErrorMessage option" where
  "load_ErrorMessage d =
     (if field_literal d ''error'' then do {
        m \<leftarrow> field_req val_str d ''message'';
        Some \<lparr>em_message = m\<rparr> }
      else None)"

definition val_SaynaMessage :: "pylib \<Rightarrow> pyval \<Rightarrow> SaynaMessage option" where
  "val_SaynaMessage L v =
     (case v of
        PDict d \<Rightarrow> do {
          m \<leftarrow> field_opt val_str None d ''message'';
          a \<leftarrow> field_opt val_str None d ''data'';
          i \<leftarrow> field_req val_str d ''identity'';
          t \<leftarrow> field_req val_str d ''topic'';
          r \<leftarrow> field_req val_str d ''room'';
          s \<leftarrow> field_req (val_int L) d ''timestamp'';
          Some \<lparr>sy_message = m, sy_data = a, sy_identity = i, sy_topic = t, sy_room = r,
                sy_timestamp = s\<rparr> }
      | _ \<Rightarrow> None)"

definition load_MessageMessage :: "pylib \<Rightarrow> pydict \<Rightarrow> MessageMessage option" where
  "load_MessageMessage L d =
     (if field_literal d ''message'' then do {
        m \<leftarrow> field_req (val_SaynaMessage L) d ''message'';
        Some \<lparr>mm_message = m\<rparr> }
      else None)"

definition val_Participant :: "pylib \<Rightarrow> pyval \<Rightarrow> Participant option" where
  "val_Participant L v =
     (case v of
        PDict d \<Rightarrow> do {
          i \<leftarrow> field_req val_str d ''identity'';
          n \<leftarrow> field_opt val_str None d ''name'';
          r \<leftarrow> field_req val_str d ''room'';
          s \<leftarrow> field_req (val_int L) d ''timestamp'';
          Some \<lparr>pa_identity = i, pa_name = n, pa_room = r, pa_timestamp = s\<rparr> }
      | _ \<Rightarrow> None)"

definition load_ParticipantDisconnectedMessage ::
  "pylib \<Rightarrow> pydict \<Rightarrow> ParticipantDisconnectedMessage option" where
  "load_ParticipantDisconnectedMessage L d =
     (if field_literal d ''participant_disconnected'' then do {
        p \<leftarrow> field_req (val_Participant L) d ''participant'';
        Some \<lparr>pd_participant = p\<rparr> }
      else None)"

definition load_TTSPlaybackCompleteMessage ::
  "pylib \<Rightarrow> pydict \<Rightarrow> TTSPlaybackCompleteMessage option" where
  "load_TTSPlaybackCompleteMessage L d =
     (if field_literal d ''tts_playback_complete'' then do {
        t \<leftarrow> field_req (val_int L) d ''timestamp'';
        Some \<lparr>pc_timestamp = t\<rparr> }
      else None)"

section \<open>The client (client.py)\<close>

subsection \<open>Exceptions, effects and the state of the client\<close>

text \<open>
  The exceptions that reach the client's \<^verbatim>\<open>except\<close> clauses or its caller. All of them are
  subclasses of \<^verbatim>\<open>Exception\<close>. \<open>ClientError\<close> is \<^verbatim>\<open>aiohttp.ClientError\<close>, \<open>OtherException\<close> any
  exception of the transport or of a host callback that is not one; a
  \<open>SaynaConnectionError\<close> carries its message prefix and its cause.
\<close>

datatype exn =
    ClientError
  | OtherException
  | SaynaValidationError string
  | SaynaConnectionError string exn
  | SaynaNotConnectedError
  | SaynaNotReadyError

text \<open>What a call into the transport does: it returns, or it raises.\<close>

datatype outcome = Succeeds | Raises exn

text \<open>
  A host callback is called with the message. The call raises (\<open>Inl\<close>), or returns a plain
  value, or returns a coroutine, which the handler awaits and which then returns or raises.
  Callbacks do not reach into the client's fields.
\<close>

datatype cb_result = Value | Coroutine outcome

type_synonym 'm callback = "'m \<Rightarrow> exn + cb_result"

datatype log_level = LvDebug | LvInfo | LvWarning | LvError

text \<open>Everything an operation does outside the client's own fields, in the order it does it.\<close>

datatype effect =
    Log log_level string
  | Session_open "(string \<times> string) list"
  | Ws_connect string
  | Ws_send_json pydict
  | Ws_send_bytes bytes
  | Task_create
  | Task_cancel
  | Ws_close
  | Session_close
  | Http_close
  | Call_on_ready ReadyMessage
  | Call_on_stt_result STTResultMessage
  | Call_on_message MessageMessage
  | Call_on_error ErrorMessage
  | Call_on_participant_disconnected ParticipantDisconnectedMessage
  | Call_on_tts_playback_complete TTSPlaybackCompleteMessage
  | Call_on_audio bytes

datatype ws_handle = ClientWebSocketResponse

datatype session_handle = ClientSession

text \<open>
  The \<^verbatim>\<open>asyncio.Task\<close> of the receive loop: created and not yet run, running (suspended in
  the loop), or done.
\<close>

datatype task = Task_created | Task_running | Task_done

record client =
  url :: string
  api_key :: "string option"
  ws :: "ws_handle option"
  session :: "session_handle option"
  connected :: bool
  ready :: bool
  receive_task :: "task option"
  livekit_room_name :: "string option"
  livekit_url :: "string option"
  sayna_participant_identity :: "string option"
  sayna_participant_name :: "string option"
  on_ready :: "ReadyMessage callback option"
  on_stt_result :: "STTResultMessage callback option"
  on_message :: "MessageMessage callback option"
  on_error :: "ErrorMessage callback option"
  on_participant_disconnected :: "ParticipantDisconnectedMessage callback option"
  on_tts_playback_complete :: "TTSPlaybackCompleteMessage callback option"
  on_audio :: "bytes callback option"

text \<open>\<^verbatim>\<open>SaynaClient.__init__\<close> (the REST base URL and HTTP client apart).\<close>

definition init :: "string \<Rightarrow> string option \<Rightarrow> client" where
  "init u k =
     \<lparr>url = u, api_key = k, ws = None, session = None, connected = False, ready = False,
      receive_task = None, livekit_room_name = None, livekit_url = None,
      sayna_participant_identity = None, sayna_participant_name = None,
      on_ready = None, on_stt_result = None, on_message = None, on_error = None,
      on_participant_disconnected = None, on_tts_playback_complete = None, on_audio = None\<rparr>"

text \<open>The result of an operation: what it raises or returns, the client after it, its effects.\<close>

type_synonym 'a result = "(exn + 'a) \<times> client \<times> effect list"

subsection \<open>Internal methods\<close>

definition check_connected :: "client \<Rightarrow> exn + unit" where
  "check_connected c = (if \<not> connected c then Inl SaynaNotConnectedError else Inr ())"

definition check_ready :: "client \<Rightarrow> exn + unit" where
  "check_ready c =
     (case check_connected c of
        Inl e \<Rightarrow> Inl e
      | Inr _ \<Rightarrow> if \<not> ready c then Inl SaynaNotReadyError else Inr ())"

text \<open>\<^verbatim>\<open>_send_json\<close>; the outcome of \<^verbatim>\<open>ws.send_json\<close> is the first argument.\<close>

definition send_json :: "outcome \<Rightarrow> client \<Rightarrow> pydict \<Rightarrow> unit result" where
  "send_json o_send c data =
     (case check_connected c of
        Inl e \<Rightarrow> (Inl e, c, [])
      | Inr _ \<Rightarrow>
          (case ws c of
             None \<Rightarrow> (Inr (), c, [])
           | Some _ \<Rightarrow>
               (case o_send of
                  Raises e \<Rightarrow> (Inl e, c, [])
                | Succeeds \<Rightarrow> (Inr (), c, [Ws_send_json data, Log LvDebug ''Sent'']))))"

subsection \<open>Connection management\<close>

record connect_env =
  ws_connect_outcome :: outcome
  config_send_outcome :: outcome

definition auth_headers :: "client \<Rightarrow> (string \<times> string) list" where
  "auth_headers c =
     (case api_key c of
        None \<Rightarrow> []
      | Some k \<Rightarrow> if k = [] then [] else [(''Authorization'', ''Bearer '' @ k)])"

text \<open>The two \<^verbatim>\<open>except\<close> clauses of \<^verbatim>\<open>connect\<close>.\<close>

definition connect_failed :: "exn \<Rightarrow> client \<Rightarrow> effect list \<Rightarrow> unit result" where
  "connect_failed e c fx =
     (if e = ClientError
      then (Inl (SaynaConnectionError ''Failed to connect to WebSocket'' e),
            c\<lparr>connected := False\<rparr>, fx)
      else (Inl (SaynaConnectionError ''Unexpected error during connection'' e),
            c\<lparr>connected := False\<rparr>, fx))"

definition connect ::
  "connect_env \<Rightarrow> client \<Rightarrow> STTConfig option \<Rightarrow> TTSConfig option \<Rightarrow> LiveKitConfig option
     \<Rightarrow> bool \<Rightarrow> unit result" where
  "connect env c stt_config tts_config livekit_config audio =
     (if connected c then (Inr (), c, [Log LvWarning ''Already connected to Sayna WebSocket''])
      else if audio \<and> (stt_config = None \<or> tts_config = None)
      then (Inl (SaynaValidationError ''stt_config and tts_config are required when audio=True''),
            c, [])
      else
        let c1 = c\<lparr>session := Some ClientSession\<rparr>;
            fx1 = [Session_open (auth_headers c), Ws_connect (url c)]
        in (case ws_connect_outcome env of
              Raises e \<Rightarrow> connect_failed e c1 fx1
            | Succeeds \<Rightarrow>
                let c2 = c1\<lparr>ws := Some ClientWebSocketResponse, connected := True\<rparr>;
                    fx2 = fx1 @ [Log LvInfo ''Connected to Sayna WebSocket''];
                    config = \<lparr>cfg_audio = Some audio, cfg_stt_config = stt_config,
                              cfg_tts_config = tts_config, cfg_livekit = livekit_config\<rparr>
                in (case send_json (config_send_outcome env) c2 (dump_ConfigMessage config) of
                      (Inl e, c3, fx3) \<Rightarrow> connect_failed e c3 (fx2 @ fx3)
                    | (Inr _, c3, fx3) \<Rightarrow>
                        (Inr (), c3\<lparr>receive_task := Some Task_created\<rparr>,
                         fx2 @ fx3 @ [Task_create]))))"

text \<open>
  The \<^verbatim>\<open>finally\<close> clause of \<^verbatim>\<open>_receive_loop\<close>; the task is done when its coroutine returns.
\<close>

definition loop_finally :: "client \<Rightarrow> client" where
  "loop_finally c = c\<lparr>connected := False, ready := False, receive_task := Some Task_done\<rparr>"

text \<open>
  \<^verbatim>\<open>self._receive_task.cancel()\<close> and the suppressed \<^verbatim>\<open>await\<close>: a task that has not run yet
  is cancelled before its first step and never enters the coroutine's body; a running one
  gets \<^verbatim>\<open>CancelledError\<close> where it is suspended, logs it and runs its \<^verbatim>\<open>finally\<close>; a done
  one is left as it is.
\<close>

definition cancel_receive_task :: "client \<Rightarrow> client \<times> effect list" where
  "cancel_receive_task c =
     (case receive_task c of
        None \<Rightarrow> (c, [])
      | Some Task_created \<Rightarrow> (c\<lparr>receive_task := None\<rparr>, [Task_cancel])
      | Some Task_running \<Rightarrow>
          ((loop_finally c)\<lparr>receive_task := None\<rparr>,
           [Task_cancel, Log LvDebug ''Receive loop cancelled''])
      | Some Task_done \<Rightarrow> (c\<lparr>receive_task := None\<rparr>, [Task_cancel]))"

record disconnect_env =
  ws_closed :: bool
  ws_close_outcome :: outcome
  session_closed :: bool
  session_close_outcome :: outcome
  http_close_outcome :: outcome

text \<open>The body of the \<^verbatim>\<open>try\<close> of \<^verbatim>\<open>disconnect\<close>: \<open>Inl\<close> is the exception that leaves it.\<close>

definition disconnect_body :: "disconnect_env \<Rightarrow> client \<Rightarrow> unit result" where
  "disconnect_body env c =
     (let (c1, fx1) = cancel_receive_task c
      in (case (if ws c1 \<noteq> None \<and> \<not> ws_closed env
                then (ws_close_outcome env, [Ws_close]) else (Succeeds, [])) of
            (Raises e, fx2) \<Rightarrow> (Inl e, c1, fx1 @ fx2)
          | (Succeeds, fx2) \<Rightarrow>
              let c2 = c1\<lparr>ws := None\<rparr>
              in (case (if session c2 \<noteq> None \<and> \<not> session_closed env
                        then (session_close_outcome env, [Session_close]) else (Succeeds, [])) of
                    (Raises e, fx3) \<Rightarrow> (Inl e, c2, fx1 @ fx2 @ fx3)
                  | (Succeeds, fx3) \<Rightarrow>
                      (Inr (), c2\<lparr>session := None, connected := False, ready := False\<rparr>,
                       fx1 @ fx2 @ fx3 @ [Log LvInfo ''Disconnected from Sayna WebSocket'']))))"

definition disconnect :: "disconnect_env \<Rightarrow> client \<Rightarrow> unit result" where
  "disconnect env c =
     (if \<not> connected c then (Inr (), c, [Log LvWarning ''Not connected to Sayna WebSocket''])
      else
        let (r, c1, fx) =
              (case disconnect_body env c of
                 (Inl e, c1, fx) \<Rightarrow>
                   (Inl (SaynaConnectionError ''Error during disconnect'' e), c1,
                    fx @ [Log LvError ''Error during disconnect''])
               | (Inr u, c1, fx) \<Rightarrow> (Inr u, c1, fx))
        in (case http_close_outcome env of
              Raises e \<Rightarrow> (Inl e, c1, fx @ [Http_close])
            | Succeeds \<Rightarrow> (r, c1, fx @ [Http_close])))"

subsection \<open>Sending\<close>

definition send_speak :: "outcome \<Rightarrow> client \<Rightarrow> string \<Rightarrow> bool \<Rightarrow> bool \<Rightarrow> unit result" where
  "send_speak o_send c text flush allow_interruption =
     (case check_ready c of
        Inl e \<Rightarrow> (Inl e, c, [])
      | Inr _ \<Rightarrow>
          send_json o_send c
            (dump_SpeakMessage \<lparr>sp_text = text, sp_flush = Some flush,
                                sp_allow_interruption = Some allow_interruption\<rparr>))"

definition send_clear :: "outcome \<Rightarrow> client \<Rightarrow> unit result" where
  "send_clear o_send c =
     (case check_ready c of
        Inl e \<Rightarrow> (Inl e, c, [])
      | Inr _ \<Rightarrow> send_json o_send c (dump_ClearMessage ClearMessage))"

definition send_message ::
  "outcome \<Rightarrow> client \<Rightarrow> string \<Rightarrow> string \<Rightarrow> string \<Rightarrow> pydict option \<Rightarrow> unit result" where
  "send_message o_send c message role topic debug =
     (case check_ready c of
        Inl e \<Rightarrow> (Inl e, c, [])
      | Inr _ \<Rightarrow>
          send_json o_send c
            (dump_SendMessageMessage \<lparr>sm_message = message, sm_role = role,
                                      sm_topic = Some topic, sm_debug = debug\<rparr>))"

definition send_audio :: "outcome \<Rightarrow> client \<Rightarrow> bytes \<Rightarrow> unit result" where
  "send_audio o_send c audio_data =
     (case check_ready c of
        Inl e \<Rightarrow> (Inl e, c, [])
      | Inr _ \<Rightarrow>
          (case ws c of
             None \<Rightarrow> (Inr (), c, [])
           | Some _ \<Rightarrow>
               (case o_send of
                  Raises e \<Rightarrow> (Inl e, c, [])
                | Succeeds \<Rightarrow> (Inr (), c, [Ws_send_bytes audio_data]))))"

subsection \<open>Event registration\<close>

definition register_on_ready :: "client \<Rightarrow> ReadyMessage callback \<Rightarrow> client" where
  "register_on_ready c callback = c\<lparr>on_ready := Some callback\<rparr>"

definition register_on_stt_result :: "client \<Rightarrow> STTResultMessage callback \<Rightarrow> client" where
  "register_on_stt_result c callback = c\<lparr>on_stt_result := Some callback\<rparr>"

definition register_on_message :: "client \<Rightarrow> MessageMessage callback \<Rightarrow> client" where
  "register_on_message c callback = c\<lparr>on_message := Some callback\<rparr>"

definition register_on_error :: "client \<Rightarrow> ErrorMessage callback \<Rightarrow> client" where
  "register_on_error c callback = c\<lparr>on_error := Some callback\<rparr>"

definition register_on_participant_disconnected ::
  "client \<Rightarrow> ParticipantDisconnectedMessage callback \<Rightarrow> client" where
  "register_on_participant_disconnected c callback =
     c\<lparr>on_participant_disconnected := Some callback\<rparr>"

definition register_on_tts_playback_complete ::
  "client \<Rightarrow> TTSPlaybackCompleteMessage callback \<Rightarrow> client" where
  "register_on_tts_playback_complete c callback =
     c\<lparr>on_tts_playback_complete := Some callback\<rparr>"

definition register_on_audio :: "client \<Rightarrow> bytes callback \<Rightarrow> client" where
  "register_on_audio c callback = c\<lparr>on_audio := Some callback\<rparr>"

subsection \<open>Handlers\<close>

text \<open>
  The \<^verbatim>\<open>try\<close> around every callback: the call, the \<^verbatim>\<open>await\<close> of a returned coroutine, and
  \<^verbatim>\<open>except Exception\<close>, which logs.
\<close>

definition cb_raised :: "exn + cb_result \<Rightarrow> bool" where
  "cb_raised r =
     (case r of
        Inl e \<Rightarrow> True
      | Inr Value \<Rightarrow> False
      | Inr (Coroutine Succeeds) \<Rightarrow> False
      | Inr (Coroutine (Raises e)) \<Rightarrow> True)"

definition invoke :: "effect \<Rightarrow> string \<Rightarrow> exn + cb_result \<Rightarrow> effect list" where
  "invoke call label r = call # (if cb_raised r then [Log LvError label] else [])"

definition handle_ready :: "client \<Rightarrow> ReadyMessage \<Rightarrow> client \<times> effect list" where
  "handle_ready c message =
     (let c1 = c\<lparr>ready := True,
                 livekit_room_name := rm_livekit_room_name message,
                 livekit_url := Some (rm_livekit_url message),
                 sayna_participant_identity := rm_sayna_participant_identity message,
                 sayna_participant_name := rm_sayna_participant_name message\<rparr>
      in (c1, Log LvInfo ''Ready - LiveKit room''
              # (case on_ready c1 of
                   None \<Rightarrow> []
                 | Some cb \<Rightarrow>
                     invoke (Call_on_ready message) ''Error in ready callback'' (cb message))))"

definition handle_stt_result :: "client \<Rightarrow> STTResultMessage \<Rightarrow> client \<times> effect list" where
  "handle_stt_result c message =
     (c, case on_stt_result c of
           None \<Rightarrow> []
         | Some cb \<Rightarrow>
             invoke (Call_on_stt_result message) ''Error in STT result callback'' (cb message))"

definition handle_message :: "client \<Rightarrow> MessageMessage \<Rightarrow> client \<times> effect list" where
  "handle_message c message =
     (c, case on_message c of
           None \<Rightarrow> []
         | Some cb \<Rightarrow>
             invoke (Call_on_message message) ''Error in message callback'' (cb message))"

definition handle_error :: "client \<Rightarrow> ErrorMessage \<Rightarrow> client \<times> effect list" where
  "handle_error c message =
     (c, Log LvError ''Server error''
         # (case on_error c of
              None \<Rightarrow> []
            | Some cb \<Rightarrow>
                invoke (Call_on_error message) ''Error in error callback'' (cb message)))"

definition handle_participant_disconnected ::
  "client \<Rightarrow> ParticipantDisconnectedMessage \<Rightarrow> client \<times> effect list" where
  "handle_participant_disconnected c message =
     (c, Log LvInfo ''Participant disconnected''
         # (case on_participant_disconnected c of
              None \<Rightarrow> []
            | Some cb \<Rightarrow>
                invoke (Call_on_participant_disconnected message)
                  ''Error in participant disconnected callback'' (cb message)))"

definition handle_tts_playback_complete ::
  "client \<Rightarrow> TTSPlaybackCompleteMessage \<Rightarrow> client \<times> effect list" where
  "handle_tts_playback_complete c message =
     (c, Log LvDebug ''TTS playback complete''
         # (case on_tts_playback_complete c of
              None \<Rightarrow> []
            | Some cb \<Rightarrow>
                invoke (Call_on_tts_playback_complete message)
                  ''Error in TTS playback complete callback'' (cb message)))"

definition handle_binary_message :: "client \<Rightarrow> bytes \<Rightarrow> client \<times> effect list" where
  "handle_binary_message c data =
     (c, Log LvDebug ''Received audio data''
         # (case on_audio c of
              None \<Rightarrow> []
            | Some cb \<Rightarrow> invoke (Call_on_audio data) ''Error in audio callback'' (cb data)))"

text \<open>
  \<^verbatim>\<open>_handle_text_message\<close>. \<^verbatim>\<open>json.loads\<close> raising, and \<^verbatim>\<open>parsed.get\<close> on a value that is not
  a dictionary, end in the last \<^verbatim>\<open>except\<close> clause; a message that the schema refuses ends
  in \<^verbatim>\<open>except ValidationError\<close>.
\<close>

definition received :: "client \<times> effect list \<Rightarrow> client \<times> effect list" where
  "received r = (fst r, Log LvDebug ''Received'' # snd r)"

definition parse_failed :: "client \<Rightarrow> client \<times> effect list" where
  "parse_failed c = (c, [Log LvError ''Failed to parse message''])"

definition handle_text_message :: "pylib \<Rightarrow> client \<Rightarrow> string \<Rightarrow> client \<times> effect list" where
  "handle_text_message L c data =
     (case json_loads L data of
        None \<Rightarrow> (c, [Log LvError ''Error handling message''])
      | Some (PDict parsed) \<Rightarrow>
          (let msg_type = map_of parsed ''type'' in
           if msg_type = Some (PStr ''ready'') then
             received (case load_ReadyMessage parsed of
                         None \<Rightarrow> parse_failed c | Some m \<Rightarrow> handle_ready c m)
           else if msg_type = Some (PStr ''stt_result'') then
             received (case load_STTResultMessage L parsed of
                         None \<Rightarrow> parse_failed c | Some m \<Rightarrow> handle_stt_result c m)
           else if msg_type = Some (PStr ''message'') then
             received (case load_MessageMessage L parsed of
                         None \<Rightarrow> parse_failed c | Some m \<Rightarrow> handle_message c m)
           else if msg_type = Some (PStr ''error'') then
             received (case load_ErrorMessage parsed of
                         None \<Rightarrow> parse_failed c | Some m \<Rightarrow> handle_error c m)
           else if msg_type = Some (PStr ''participant_disconnected'') then
             received (case load_ParticipantDisconnectedMessage L parsed of
                         None \<Rightarrow> parse_failed c
                       | Some m \<Rightarrow> handle_participant_disconnected c m)
           else if msg_type = Some (PStr ''tts_playback_complete'') then
             received (case load_TTSPlaybackCompleteMessage L parsed of
                         None \<Rightarrow> parse_failed c
                       | Some m \<Rightarrow> handle_tts_playback_complete c m)
           else received (c, [Log LvWarning ''Unknown message type'']))
      | Some _ \<Rightarrow> (c, [Log LvError ''Error handling message'']))"

text \<open>
  The decoding that \<^verbatim>\<open>_handle_text_message\<close> does before it calls a handler, on its own:
  parse, read the discriminator, build the message of that kind.
\<close>

datatype inbound =
    In_ready ReadyMessage
  | In_stt_result STTResultMessage
  | In_message MessageMessage
  | In_error ErrorMessage
  | In_participant_disconnected ParticipantDisconnectedMessage
  | In_tts_playback_complete TTSPlaybackCompleteMessage

datatype decode_error = Malformed_json | Not_an_object | Invalid_fields | Unknown_type

definition built :: "('m \<Rightarrow> inbound) \<Rightarrow> 'm option \<Rightarrow> decode_error + inbound" where
  "built kind r = (case r of None \<Rightarrow> Inl Invalid_fields | Some m \<Rightarrow> Inr (kind m))"

definition decode_text :: "pylib \<Rightarrow> string \<Rightarrow> decode_error + inbound" where
  "decode_text L data =
     (case json_loads L data of
        None \<Rightarrow> Inl Malformed_json
      | Some (PDict parsed) \<Rightarrow>
          (let msg_type = map_of parsed ''type'' in
           if msg_type = Some (PStr ''ready'') then built In_ready (load_ReadyMessage parsed)
           else if msg_type = Some (PStr ''stt_result'')
             then built In_stt_result (load_STTResultMessage L parsed)
           else if msg_type = Some (PStr ''message'')
             then built In_message (load_MessageMessage L parsed)
           else if msg_type = Some (PStr ''error'') then built In_error (load_ErrorMessage parsed)
           else if msg_type = Some (PStr ''participant_disconnected'')
             then built In_participant_disconnected
                    (load_ParticipantDisconnectedMessage L parsed)
           else if msg_type = Some (PStr ''tts_playback_complete'')
             then built In_tts_playback_complete (load_TTSPlaybackCompleteMessage L parsed)
           else Inl Unknown_type)
      | Some _ \<Rightarrow> Inl Not_an_object)"

definition dispatch :: "client \<Rightarrow> inbound \<Rightarrow> client \<times> effect list" where
  "dispatch c m =
     (case m of
        In_ready x \<Rightarrow> handle_ready c x
      | In_stt_result x \<Rightarrow> handle_stt_result c x
      | In_message x \<Rightarrow> handle_message c x
      | In_error x \<Rightarrow> handle_error c x
      | In_participant_disconnected x \<Rightarrow> handle_participant_disconnected c x
      | In_tts_playback_complete x \<Rightarrow> handle_tts_playback_complete c x)"

subsection \<open>The receive loop\<close>

text \<open>
  What the iteration over the socket yields: a message of one of the four types the loop
  tests for, or of another type (no branch, next iteration).
\<close>

datatype ws_msg = TEXT string | BINARY bytes | ERROR | CLOSED | OTHER

text \<open>
  How the iteration ends when no \<^verbatim>\<open>break\<close> ends it: the socket's stream is exhausted, the
  task is cancelled, or the iteration raises.
\<close>

datatype loop_end = Exhausted | Cancelled | Failed exn

text \<open>One iteration of the \<^verbatim>\<open>async for\<close>; the first component tells a \<^verbatim>\<open>break\<close>.\<close>

definition loop_body :: "pylib \<Rightarrow> client \<Rightarrow> ws_msg \<Rightarrow> bool \<times> client \<times> effect list" where
  "loop_body L c msg =
     (case msg of
        TEXT data \<Rightarrow> (False, handle_text_message L c data)
      | BINARY data \<Rightarrow> (False, handle_binary_message c data)
      | ERROR \<Rightarrow> (True, c, [Log LvError ''WebSocket error''])
      | CLOSED \<Rightarrow> (True, c, [Log LvInfo ''WebSocket closed''])
      | OTHER \<Rightarrow> (False, c, []))"

definition loop_exit :: "loop_end \<Rightarrow> client \<Rightarrow> client \<times> effect list" where
  "loop_exit e c =
     (loop_finally c,
      case e of
        Exhausted \<Rightarrow> []
      | Cancelled \<Rightarrow> [Log LvDebug ''Receive loop cancelled'']
      | Failed x \<Rightarrow> [Log LvError ''Error in receive loop''])"

fun receive_iter :: "pylib \<Rightarrow> client \<Rightarrow> ws_msg list \<Rightarrow> loop_end \<Rightarrow> client \<times> effect list" where
  "receive_iter L c [] e = loop_exit e c"
| "receive_iter L c (msg # msgs) e =
     (case loop_body L c msg of
        (True, c1, fx) \<Rightarrow> (loop_finally c1, fx)
      | (False, c1, fx) \<Rightarrow>
          (case receive_iter L c1 msgs e of (c2, fx2) \<Rightarrow> (c2, fx @ fx2)))"

text \<open>\<^verbatim>\<open>_receive_loop\<close>, run on the messages the socket yields and the way the stream ends.\<close>

definition receive_loop ::
  "pylib \<Rightarrow> client \<Rightarrow> ws_msg list \<Rightarrow> loop_end \<Rightarrow> client \<times> effect list" where
  "receive_loop L c msgs e =
     (if ws c = None then (loop_finally c, []) else receive_iter L c msgs e)"

subsection \<open>Sequences of operations\<close>

text \<open>
  The operations made on one client from outside its receive task (by the host, each run
  to completion), and the steps of the receive task that the client holds in
  \<^verbatim>\<open>_receive_task\<close>: its first step when it was created, an iteration or its end while it
  is running. A callback is here only what it returns or raises; the calls that a callback
  itself makes on the client, and a loop that the client no longer holds, are the subject of
  the next subsection.
\<close>

datatype action =
    Connect connect_env "STTConfig option" "TTSConfig option" "LiveKitConfig option" bool
  | Disconnect disconnect_env
  | Send_speak outcome string bool bool
  | Send_clear outcome
  | Send_message outcome string string string "pydict option"
  | Send_audio outcome bytes
  | Register_on_ready "ReadyMessage callback"
  | Register_on_stt_result "STTResultMessage callback"
  | Register_on_message "MessageMessage callback"
  | Register_on_error "ErrorMessage callback"
  | Register_on_participant_disconnected "ParticipantDisconnectedMessage callback"
  | Register_on_tts_playback_complete "TTSPlaybackCompleteMessage callback"
  | Register_on_audio "bytes callback"
  | Loop_start
  | Loop_msg ws_msg
  | Loop_end loop_end

definition exec :: "pylib \<Rightarrow> client \<Rightarrow> action \<Rightarrow> client \<times> effect list" where
  "exec L c a =
     (case a of
        Connect env s t k au \<Rightarrow> snd (connect env c s t k au)
      | Disconnect env \<Rightarrow> snd (disconnect env c)
      | Send_speak o_send text flush allow \<Rightarrow> snd (send_speak o_send c text flush allow)
      | Send_clear o_send \<Rightarrow> snd (send_clear o_send c)
      | Send_message o_send m r t d \<Rightarrow> snd (send_message o_send c m r t d)
      | Send_audio o_send b \<Rightarrow> snd (send_audio o_send c b)
      | Register_on_ready cb \<Rightarrow> (register_on_ready c cb, [])
      | Register_on_stt_result cb \<Rightarrow> (register_on_stt_result c cb, [])
      | Register_on_message cb \<Rightarrow> (register_on_message c cb, [])
      | Register_on_error cb \<Rightarrow> (register_on_error c cb, [])
      | Register_on_participant_disconnected cb \<Rightarrow>
          (register_on_participant_disconnected c cb, [])
      | Register_on_tts_playback_complete cb \<Rightarrow> (register_on_tts_playback_complete c cb, [])
      | Register_on_audio cb \<Rightarrow> (register_on_audio c cb, [])
      | Loop_start \<Rightarrow>
          (if receive_task c = Some Task_created
           then (if ws c = None then (loop_finally c, [])
                 else (c\<lparr>receive_task := Some Task_running\<rparr>, []))
           else (c, []))
      | Loop_msg msg \<Rightarrow>
          (if receive_task c = Some Task_running
           then (case loop_body L c msg of
                   (True, c1, fx) \<Rightarrow> (loop_finally c1, fx)
                 | (False, c1, fx) \<Rightarrow> (c1, fx))
           else (c, []))
      | Loop_end e \<Rightarrow>
          (if receive_task c = Some Task_running then loop_exit e c else (c, [])))"

definition run :: "pylib \<Rightarrow> client \<Rightarrow> action list \<Rightarrow> client" where
  "run L c acts = foldl (\<lambda>c a. fst (exec L c a)) c acts"

text \<open>The callback invocations among some effects, and the frames written to the socket.\<close>

fun is_call :: "effect \<Rightarrow> bool" where
  "is_call (Call_on_ready m) = True"
| "is_call (Call_on_stt_result m) = True"
| "is_call (Call_on_message m) = True"
| "is_call (Call_on_error m) = True"
| "is_call (Call_on_participant_disconnected m) = True"
| "is_call (Call_on_tts_playback_complete m) = True"
| "is_call (Call_on_audio b) = True"
| "is_call e = False"

definition calls :: "effect list \<Rightarrow> effect list" where
  "calls fx = filter is_call fx"

fun is_frame :: "effect \<Rightarrow> bool" where
  "is_frame (Ws_send_json d) = True"
| "is_frame (Ws_send_bytes b) = True"
| "is_frame e = False"

definition frames :: "effect list \<Rightarrow> effect list" where
  "frames fx = filter is_frame fx"

subsection \<open>Calls from inside a callback\<close>

text \<open>
  A callback runs on the receive task. When it awaits \<^verbatim>\<open>disconnect\<close> there, \<^verbatim>\<open>cancel()\<close> only
  marks the running task, and the \<^verbatim>\<open>await\<close> of the task by itself is answered with
  \<^verbatim>\<open>CancelledError\<close>, which takes the mark away and is suppressed: the task is not ended. The
  client drops its reference to it, and the loop goes on, detached from the client, until its
  iteration over the old socket ends.
\<close>

definition cancel_own_task :: "client \<Rightarrow> client \<times> effect list" where
  "cancel_own_task c =
     (case receive_task c of
        None \<Rightarrow> (c, [])
      | Some t \<Rightarrow> (c\<lparr>receive_task := None\<rparr>, [Task_cancel]))"

text \<open>
  The steps of \<^verbatim>\<open>disconnect\<close> that follow the cancellation, and its \<^verbatim>\<open>except\<close> and \<^verbatim>\<open>finally\<close>
  clauses, as in \<open>disconnect_body\<close> and \<open>disconnect\<close>.
\<close>

definition disconnect_steps :: "disconnect_env \<Rightarrow> client \<times> effect list \<Rightarrow> unit result" where
  "disconnect_steps env cancelled =
     (case cancelled of
        (c1, fx1) \<Rightarrow>
          (case (if ws c1 \<noteq> None \<and> \<not> ws_closed env
                 then (ws_close_outcome env, [Ws_close]) else (Succeeds, [])) of
             (Raises e, fx2) \<Rightarrow> (Inl e, c1, fx1 @ fx2)
           | (Succeeds, fx2) \<Rightarrow>
               let c2 = c1\<lparr>ws := None\<rparr>
               in (case (if session c2 \<noteq> None \<and> \<not> session_closed env
                         then (session_close_outcome env, [Session_close])
                         else (Succeeds, [])) of
                     (Raises e, fx3) \<Rightarrow> (Inl e, c2, fx1 @ fx2 @ fx3)
                   | (Succeeds, fx3) \<Rightarrow>
                       (Inr (), c2\<lparr>session := None, connected := False, ready := False\<rparr>,
                        fx1 @ fx2 @ fx3 @ [Log LvInfo ''Disconnected from Sayna WebSocket'']))))"

definition disconnect_finish :: "disconnect_env \<Rightarrow> unit result \<Rightarrow> unit result" where
  "disconnect_finish env body =
     (let (r, c1, fx) =
            (case body of
               (Inl e, c1, fx) \<Rightarrow>
                 (Inl (SaynaConnectionError ''Error during disconnect'' e), c1,
                  fx @ [Log LvError ''Error during disconnect''])
             | (Inr u, c1, fx) \<Rightarrow> (Inr u, c1, fx))
      in (case http_close_outcome env of
            Raises e \<Rightarrow> (Inl e, c1, fx @ [Http_close])
          | Succeeds \<Rightarrow> (r, c1, fx @ [Http_close])))"

text \<open>\<^verbatim>\<open>disconnect\<close>, awaited by a callback of the receive task that the client holds.\<close>

definition disconnect_in_callback :: "disconnect_env \<Rightarrow> client \<Rightarrow> unit result" where
  "disconnect_in_callback env c =
     (if \<not> connected c then (Inr (), c, [Log LvWarning ''Not connected to Sayna WebSocket''])
      else disconnect_finish env (disconnect_steps env (cancel_own_task c)))"

text \<open>
  The \<^verbatim>\<open>finally\<close> clause of \<^verbatim>\<open>_receive_loop\<close>, run by a detached loop: the same two
  assignments, on the client as it is by then.
\<close>

definition detached_finally :: "client \<Rightarrow> client" where
  "detached_finally c = c\<lparr>connected := False, ready := False\<rparr>"

text \<open>
  The client together with the number of detached loops that are still running. A step is
  an operation of the last subsection, a \<^verbatim>\<open>disconnect\<close> awaited by a callback of the held
  receive task while that task is running, or an iteration or the end of a detached loop.
  The other calls of a callback (\<^verbatim>\<open>connect\<close>, the send operations, registrations) do what
  they do from outside the task.
\<close>

record world =
  cl :: client
  detached :: nat

datatype step =
    Outside action
  | Callback_disconnect disconnect_env
  | Detached_msg ws_msg
  | Detached_end loop_end

definition world_step :: "pylib \<Rightarrow> world \<Rightarrow> step \<Rightarrow> world" where
  "world_step L w s =
     (case s of
        Outside a \<Rightarrow> w\<lparr>cl := fst (exec L (cl w) a)\<rparr>
      | Callback_disconnect env \<Rightarrow>
          (if receive_task (cl w) = Some Task_running
           then \<lparr>cl = fst (snd (disconnect_in_callback env (cl w))),
                 detached = (if connected (cl w) then Suc (detached w) else detached w)\<rparr>
           else w)
      | Detached_msg msg \<Rightarrow>
          (if 0 < detached w
           then (case loop_body L (cl w) msg of
                   (True, c1, fx) \<Rightarrow> \<lparr>cl = detached_finally c1, detached = detached w - 1\<rparr>
                 | (False, c1, fx) \<Rightarrow> w\<lparr>cl := c1\<rparr>)
           else w)
      | Detached_end e \<Rightarrow>
          (if 0 < detached w
           then \<lparr>cl = detached_finally (cl w), detached = detached w - 1\<rparr>
           else w))"

definition world_run :: "pylib \<Rightarrow> world \<Rightarrow> step list \<Rightarrow> world" where
  "world_run L w steps = foldl (world_step L) w steps"

section \<open>Notions used in the statements\<close>

text \<open>
  What sequences of operations keep when no callback calls into the client: ready only when
  connected, and a held receive task that can still run only on a connected client.
\<close>

definition invariant :: "client \<Rightarrow> bool" where
  "invariant c =
     ((ready c \<longrightarrow> connected c) \<and>
      (receive_task c = Some Task_created \<or> receive_task c = Some Task_running
         \<longrightarrow> connected c))"

text \<open>The fields of the client that a ready message fills.\<close>

definition session_fields ::
  "client \<Rightarrow> string option \<times> string option \<times> string option \<times> string option" where
  "session_fields c =
     (livekit_room_name c, livekit_url c, sayna_participant_identity c,
      sayna_participant_name c)"

definition ready_fields ::
  "ReadyMessage \<Rightarrow> string option \<times> string option \<times> string option \<times> string option" where
  "ready_fields m =
     (rm_livekit_room_name m, Some (rm_livekit_url m), rm_sayna_participant_identity m,
      rm_sayna_participant_name m)"

text \<open>A step that handles a ready frame: a text frame that decodes to a ready message.\<close>

definition is_ready_frame :: "pylib \<Rightarrow> ws_msg \<Rightarrow> bool" where
  "is_ready_frame L msg =
     (case msg of
        TEXT data \<Rightarrow> (case decode_text L data of Inr (In_ready m) \<Rightarrow> True | _ \<Rightarrow> False)
      | _ \<Rightarrow> False)"

definition carries_ready :: "pylib \<Rightarrow> step \<Rightarrow> bool" where
  "carries_ready L s =
     (case s of
        Outside (Loop_msg msg) \<Rightarrow> is_ready_frame L msg
      | Detached_msg msg \<Rightarrow> is_ready_frame L msg
      | _ \<Rightarrow> False)"

text \<open>The invocation that a decoded message is due: that of the callback of its kind, if any.\<close>

definition expected_call :: "client \<Rightarrow> inbound \<Rightarrow> effect list" where
  "expected_call c m =
     (case m of
        In_ready x \<Rightarrow> (if on_ready c = None then [] else [Call_on_ready x])
      | In_stt_result x \<Rightarrow> (if on_stt_result c = None then [] else [Call_on_stt_result x])
      | In_message x \<Rightarrow> (if on_message c = None then [] else [Call_on_message x])
      | In_error x \<Rightarrow> (if on_error c = None then [] else [Call_on_error x])
      | In_participant_disconnected x \<Rightarrow>
          (if on_participant_disconnected c = None then []
           else [Call_on_participant_disconnected x])
      | In_tts_playback_complete x \<Rightarrow>
          (if on_tts_playback_complete c = None then []
           else [Call_on_tts_playback_complete x]))"


text \<open>
  A message as the schema builds it from an encoding that leaves the unset fields out: an
  unset field whose declared default is not None has that default.
\<close>

definition or_default :: "'a \<Rightarrow> 'a option \<Rightarrow> 'a option" where
  "or_default dflt v = (case v of None \<Rightarrow> Some dflt | Some x \<Rightarrow> Some x)"

definition livekit_defaults :: "LiveKitConfig \<Rightarrow> LiveKitConfig" where
  "livekit_defaults k =
     k\<lparr>lk_enable_recording := or_default False (lk_enable_recording k),
       lk_sayna_participant_identity := or_default ''sayna-ai'' (lk_sayna_participant_identity k),
       lk_sayna_participant_name := or_default ''Sayna AI'' (lk_sayna_participant_name k),
       lk_listen_participants := or_default [] (lk_listen_participants k)\<rparr>"

definition config_defaults :: "ConfigMessage \<Rightarrow> ConfigMessage" where
  "config_defaults m =
     m\<lparr>cfg_audio := or_default True (cfg_audio m),
       cfg_livekit := map_option livekit_defaults (cfg_livekit m)\<rparr>"

text \<open>
  Concrete surroundings for the examples: a transport on which every call succeeds, and a
  parser that knows five frames (named here by what they hold, in place of their JSON text)
  and refuses every other string as malformed.
\<close>

definition ok_connect :: connect_env where
  "ok_connect = \<lparr>ws_connect_outcome = Succeeds, config_send_outcome = Succeeds\<rparr>"

definition ok_disconnect :: disconnect_env where
  "ok_disconnect =
     \<lparr>ws_closed = False, ws_close_outcome = Succeeds, session_closed = False,
      session_close_outcome = Succeeds, http_close_outcome = Succeeds\<rparr>"

definition demo_stt :: STTConfig where
  "demo_stt =
     \<lparr>stt_provider = ''deepgram'', stt_language = ''en-US'', stt_sample_rate = 16000,
      stt_channels = 1, stt_punctuation = True, stt_encoding = ''linear16'',
      stt_model = ''nova-2''\<rparr>"

definition demo_tts :: TTSConfig where
  "demo_tts =
     \<lparr>tts_provider = ''elevenlabs'', tts_voice_id = ''voice-1'', tts_speaking_rate = 1,
      tts_audio_format = ''pcm'', tts_sample_rate = 16000, tts_connection_timeout = 5000,
      tts_request_timeout = 10000, tts_model = ''turbo'',
      tts_pronunciations = [\<lparr>pr_word = ''Sayna'', pr_pronunciation = ''say-nah''\<rparr>]\<rparr>"

definition demo_lib :: pylib where
  "demo_lib =
     \<lparr>json_loads = (\<lambda>s.
        if s = ''ready frame'' then
          Some (PDict [(''type'', PStr ''ready''), (''livekit_room_name'', PStr ''room-1''),
                       (''livekit_url'', PStr ''wss://x'')])
        else if s = ''ready frame for room-2'' then
          Some (PDict [(''type'', PStr ''ready''), (''livekit_room_name'', PStr ''room-2''),
                       (''livekit_url'', PStr ''wss://y'')])
        else if s = ''ready frame without livekit_url'' then
          Some (PDict [(''type'', PStr ''ready'')])
        else if s = ''unknown_kind frame'' then
          Some (PDict [(''type'', PStr ''unknown_kind'')])
        else if s = ''stt_result frame'' then
          Some (PDict [(''type'', PStr ''stt_result''), (''transcript'', PStr ''hello''),
                       (''is_final'', PBool True), (''is_speech_final'', PBool True),
                       (''confidence'', PFloat 1)])
        else None),
      lax_bool = (\<lambda>v. None), lax_int = (\<lambda>v. None), lax_float = (\<lambda>v. None)\<rparr>"

section \<open>Gating of the send operations\<close>

text \<open>
  C1. On a client that is not connected every send operation (\<^verbatim>\<open>send_speak\<close>, \<^verbatim>\<open>send_clear\<close>,
  \<^verbatim>\<open>send_message\<close>, \<^verbatim>\<open>send_audio\<close>) raises \<^verbatim>\<open>SaynaNotConnectedError\<close>; on a client that is
  connected and not ready every one raises \<^verbatim>\<open>SaynaNotReadyError\<close>; the two errors differ; in
  both cases the client is unchanged and nothing is written to the socket (no effect at all).
\<close>

theorem send_requires_ready:
  "(\<not> connected c \<longrightarrow>
      send_speak o_send c utterance flush allow = (Inl SaynaNotConnectedError, c, []) \<and>
      send_clear o_send c = (Inl SaynaNotConnectedError, c, []) \<and>
      send_message o_send c m r t d = (Inl SaynaNotConnectedError, c, []) \<and>
      send_audio o_send c b = (Inl SaynaNotConnectedError, c, [])) \<and>
   (connected c \<and> \<not> ready c \<longrightarrow>
      send_speak o_send c utterance flush allow = (Inl SaynaNotReadyError, c, []) \<and>
      send_clear o_send c = (Inl SaynaNotReadyError, c, []) \<and>
      send_message o_send c m r t d = (Inl SaynaNotReadyError, c, []) \<and>
      send_audio o_send c b = (Inl SaynaNotReadyError, c, [])) \<and>
   SaynaNotConnectedError \<noteq> SaynaNotReadyError"
  by (simp add: send_speak_def send_clear_def send_message_def send_audio_def
        check_ready_def check_connected_def)

theorem send_requires_ready_witness:
  "\<not> connected (init ''wss://x'' None) \<and>
   send_speak Succeeds (init ''wss://x'' None) ''hi'' True True =
     (Inl SaynaNotConnectedError, init ''wss://x'' None, []) \<and>
   send_audio Succeeds (init ''wss://x'' None) [1, 2] =
     (Inl SaynaNotConnectedError, init ''wss://x'' None, []) \<and>
   connected ((init ''wss://x'' None)\<lparr>connected := True\<rparr>) \<and>
   \<not> ready ((init ''wss://x'' None)\<lparr>connected := True\<rparr>) \<and>
   send_clear Succeeds ((init ''wss://x'' None)\<lparr>connected := True\<rparr>) =
     (Inl SaynaNotReadyError, (init ''wss://x'' None)\<lparr>connected := True\<rparr>, [])"
  using send_requires_ready [where c = "init ''wss://x'' None" and o_send = Succeeds
      and utterance = "''hi''" and flush = True and allow = True and m = "''m''" and r = "''user''"
      and t = "''messages''" and d = None and b = "[1, 2]"]
    send_requires_ready [where c = "(init ''wss://x'' None)\<lparr>connected := True\<rparr>"
      and o_send = Succeeds and utterance = "''hi''" and flush = True and allow = True
      and m = "''m''" and r = "''user''" and t = "''messages''" and d = None and b = "[1, 2]"]
  by (simp add: init_def)

section \<open>Validation and the guard of connect\<close>

text \<open>
  C2. On a client that is not connected, \<^verbatim>\<open>connect\<close> with \<^verbatim>\<open>audio=True\<close> and \<^verbatim>\<open>stt_config\<close> or
  \<^verbatim>\<open>tts_config\<close> missing raises \<^verbatim>\<open>SaynaValidationError\<close>, whatever the transport would do:
  the client is unchanged and there is no effect, so no session is created and no socket
  opened.
\<close>

theorem connect_validates_first:
  assumes "\<not> connected c" and "stt_config = None \<or> tts_config = None"
  shows "connect env c stt_config tts_config livekit_config True =
           (Inl (SaynaValidationError ''stt_config and tts_config are required when audio=True''),
            c, [])"
  using assms by (simp add: connect_def)

theorem connect_validates_first_witness:
  "\<not> connected (init ''wss://x'' (Some ''key'')) \<and>
   connect \<lparr>ws_connect_outcome = Succeeds, config_send_outcome = Succeeds\<rparr>
       (init ''wss://x'' (Some ''key'')) None None None True =
     (Inl (SaynaValidationError ''stt_config and tts_config are required when audio=True''),
      init ''wss://x'' (Some ''key''), [])"
  using connect_validates_first [where c = "init ''wss://x'' (Some ''key'')"
      and stt_config = None and tts_config = None and livekit_config = None
      and env = "\<lparr>ws_connect_outcome = Succeeds, config_send_outcome = Succeeds\<rparr>"]
  by (simp add: init_def)

text \<open>
  C10. On a client that is already connected, \<^verbatim>\<open>connect\<close> returns normally for all arguments,
  also for \<^verbatim>\<open>audio=True\<close> with both configurations missing: the client is unchanged and the
  only effect is the warning.
\<close>

theorem connect_when_connected:
  assumes "connected c"
  shows "connect env c stt_config tts_config livekit_config audio =
           (Inr (), c, [Log LvWarning ''Already connected to Sayna WebSocket''])"
  using assms by (simp add: connect_def)

theorem connect_when_connected_witness:
  "connected ((init ''wss://x'' None)\<lparr>connected := True\<rparr>) \<and>
   connect \<lparr>ws_connect_outcome = Succeeds, config_send_outcome = Succeeds\<rparr>
       ((init ''wss://x'' None)\<lparr>connected := True\<rparr>) None None None True =
     (Inr (), (init ''wss://x'' None)\<lparr>connected := True\<rparr>,
      [Log LvWarning ''Already connected to Sayna WebSocket''])"
  using connect_when_connected [where c = "(init ''wss://x'' None)\<lparr>connected := True\<rparr>"
      and stt_config = None and tts_config = None and livekit_config = None and audio = True
      and env = "\<lparr>ws_connect_outcome = Succeeds, config_send_outcome = Succeeds\<rparr>"]
  by (simp add: init_def)

section \<open>The handler of text frames, by cases of the decoding\<close>

lemma handle_text_decode:
  "handle_text_message L c data =
     (case decode_text L data of
        Inl Malformed_json \<Rightarrow> (c, [Log LvError ''Error handling message''])
      | Inl Not_an_object \<Rightarrow> (c, [Log LvError ''Error handling message''])
      | Inl Invalid_fields \<Rightarrow> received (parse_failed c)
      | Inl Unknown_type \<Rightarrow> received (c, [Log LvWarning ''Unknown message type''])
      | Inr m \<Rightarrow> received (dispatch c m))"
  by (simp add: handle_text_message_def decode_text_def built_def dispatch_def Let_def
        split: option.split pyval.split)

lemma fst_dispatch:
  "fst (dispatch c m) =
     (case m of
        In_ready x \<Rightarrow>
          c\<lparr>ready := True,
            livekit_room_name := rm_livekit_room_name x,
            livekit_url := Some (rm_livekit_url x),
            sayna_participant_identity := rm_sayna_participant_identity x,
            sayna_participant_name := rm_sayna_participant_name x\<rparr>
      | _ \<Rightarrow> c)"
  by (simp add: dispatch_def handle_ready_def handle_stt_result_def handle_message_def
        handle_error_def handle_participant_disconnected_def handle_tts_playback_complete_def
        Let_def split: inbound.split)

lemma fst_handle_text:
  "fst (handle_text_message L c data) =
     (case decode_text L data of Inr m \<Rightarrow> fst (dispatch c m) | Inl e \<Rightarrow> c)"
  by (simp add: handle_text_decode received_def parse_failed_def
        split: sum.split decode_error.split)

lemma handle_text_keeps:
  "connected (fst (handle_text_message L c data)) = connected c \<and>
   receive_task (fst (handle_text_message L c data)) = receive_task c \<and>
   ws (fst (handle_text_message L c data)) = ws c"
  by (simp add: fst_handle_text fst_dispatch split: sum.split inbound.split)

lemma loop_body_keeps:
  "connected (fst (snd (loop_body L c msg))) = connected c \<and>
   receive_task (fst (snd (loop_body L c msg))) = receive_task c \<and>
   ws (fst (snd (loop_body L c msg))) = ws c"
  by (cases msg) (simp_all add: loop_body_def handle_text_keeps handle_binary_message_def)

lemma invariant_loop_finally: "invariant (loop_finally c)"
  by (simp add: invariant_def loop_finally_def)

lemma invariant_loop_body:
  "invariant c \<Longrightarrow> receive_task c = Some Task_running \<Longrightarrow>
   invariant (fst (snd (loop_body L c msg)))"
  using loop_body_keeps [of L c msg] by (simp add: invariant_def)

section \<open>The invariant\<close>

lemma invariant_connect:
  assumes "invariant c"
  shows "invariant (fst (snd (connect env c s t k au)))"
proof (cases "connected c")
  case True
  with assms show ?thesis by (simp add: connect_def)
next
  case False
  with assms have idle: "\<not> ready c" "receive_task c \<noteq> Some Task_created"
    "receive_task c \<noteq> Some Task_running"
    by (auto simp: invariant_def)
  show ?thesis
    using False idle
    by (simp add: invariant_def connect_def connect_failed_def send_json_def
          check_connected_def Let_def split: outcome.split)
qed

lemma cancel_receive_task_invariant:
  "invariant c \<Longrightarrow>
   invariant (fst (cancel_receive_task c)) \<and> receive_task (fst (cancel_receive_task c)) = None"
  by (simp add: cancel_receive_task_def loop_finally_def invariant_def
        split: option.split task.split)

lemma invariant_disconnect_body:
  assumes "invariant c"
  shows "invariant (fst (snd (disconnect_body env c)))"
proof -
  obtain c1 fx1 where c1: "cancel_receive_task c = (c1, fx1)"
    by (cases "cancel_receive_task c")
  from cancel_receive_task_invariant [OF assms] c1
  have i1: "invariant c1" and t1: "receive_task c1 = None" by simp_all
  from i1 t1 have r1: "ready c1 \<longrightarrow> connected c1" by (simp add: invariant_def)
  show ?thesis
    unfolding disconnect_body_def c1
    using r1 t1 by (simp add: invariant_def Let_def split: outcome.split)
qed

lemma disconnect_state:
  "fst (snd (disconnect env c)) =
     (if connected c then fst (snd (disconnect_body env c)) else c)"
  by (simp add: disconnect_def split: prod.split sum.split outcome.split)

lemma invariant_disconnect: "invariant c \<Longrightarrow> invariant (fst (snd (disconnect env c)))"
  by (simp add: disconnect_state invariant_disconnect_body)

lemma send_state:
  "fst (snd (send_json o_send c data)) = c"
  "fst (snd (send_speak o_send c utterance flush allow)) = c"
  "fst (snd (send_clear o_send c)) = c"
  "fst (snd (send_message o_send c m r t d)) = c"
  "fst (snd (send_audio o_send c b)) = c"
  by (simp_all add: send_json_def send_speak_def send_clear_def send_message_def send_audio_def
        split: sum.split option.split outcome.split)

lemma invariant_register:
  "invariant (register_on_ready c r) = invariant c"
  "invariant (register_on_stt_result c s) = invariant c"
  "invariant (register_on_message c m) = invariant c"
  "invariant (register_on_error c e) = invariant c"
  "invariant (register_on_participant_disconnected c p) = invariant c"
  "invariant (register_on_tts_playback_complete c t) = invariant c"
  "invariant (register_on_audio c a) = invariant c"
  by (simp_all add: invariant_def register_on_ready_def register_on_stt_result_def
        register_on_message_def register_on_error_def register_on_participant_disconnected_def
        register_on_tts_playback_complete_def register_on_audio_def)

lemma invariant_loop_msg:
  assumes "invariant c" and "receive_task c = Some Task_running"
  shows "invariant (fst (case loop_body L c msg of
                           (True, c1, fx) \<Rightarrow> (loop_finally c1, fx)
                         | (False, c1, fx) \<Rightarrow> (c1, fx)))"
proof -
  obtain b c1 fx where lb: "loop_body L c msg = (b, c1, fx)"
    by (cases "loop_body L c msg")
  from invariant_loop_body [OF assms, of L msg] lb have "invariant c1" by simp
  then show ?thesis by (cases b) (simp_all add: lb invariant_loop_finally)
qed

lemma invariant_exec: "invariant c \<Longrightarrow> invariant (fst (exec L c a))"
proof (cases a)
  case (Loop_msg msg)
  assume "invariant c"
  then show ?thesis
    using invariant_loop_msg [of c L msg] by (simp add: exec_def Loop_msg)
next
  case Loop_start
  assume "invariant c"
  then show ?thesis
    by (simp add: exec_def Loop_start invariant_loop_finally) (simp add: invariant_def)
next
  case (Loop_end e)
  assume "invariant c"
  then show ?thesis by (simp add: exec_def Loop_end loop_exit_def invariant_loop_finally)
qed (simp_all add: exec_def invariant_connect invariant_disconnect send_state
       invariant_register)

lemma invariant_run: "invariant c \<Longrightarrow> invariant (run L c acts)"
  unfolding run_def by (induction acts arbitrary: c) (simp_all add: invariant_exec)

lemma invariant_init: "invariant (init u k)"
  by (simp add: invariant_def init_def)

text \<open>
  As long as no callback calls into the client, so that every loop is the one the client
  holds, ready implies connected in every state that a sequence of operations reaches.
\<close>

lemma sequential_ready_implies_connected:
  "ready (run L (init u k) acts) \<longrightarrow> connected (run L (init u k) acts)"
  using invariant_run [OF invariant_init, of L u k acts] by (simp add: invariant_def)

lemma demo_ready_state:
  "run demo_lib (init ''wss://x'' None)
     [Connect ok_connect None None None False, Loop_start, Loop_msg (TEXT ''ready frame'')] =
   (init ''wss://x'' None)
     \<lparr>ws := Some ClientWebSocketResponse, session := Some ClientSession, connected := True,
      ready := True, receive_task := Some Task_running, livekit_room_name := Some ''room-1'',
      livekit_url := Some ''wss://x''\<rparr>"
  by (simp add: run_def exec_def connect_def ok_connect_def send_json_def check_connected_def
        init_def loop_body_def handle_text_message_def demo_lib_def load_ReadyMessage_def
        field_literal_def field_opt_def field_req_def val_str_def received_def handle_ready_def
        Let_def)

section \<open>The scenario of the ready handshake\<close>

lemma connect_ok:
  assumes "\<not> connected c" and "\<not> (au \<and> (s = None \<or> t = None))"
  shows "fst (snd (connect ok_connect c s t k au)) =
           c\<lparr>session := Some ClientSession, ws := Some ClientWebSocketResponse,
             connected := True, receive_task := Some Task_created\<rparr> \<and>
         fst (connect ok_connect c s t k au) = Inr ()"
  using assms
  by (simp add: connect_def ok_connect_def send_json_def check_connected_def Let_def)

text \<open>
  C3. On a client that is not connected: after \<^verbatim>\<open>connect\<close> with both configurations on a
  transport that succeeds, the start of the receive task and the handling of a ready frame
  with \<^verbatim>\<open>livekit_room_name="room-1"\<close> and \<^verbatim>\<open>livekit_url="wss://x"\<close>, the client is ready and
  its room name is \<^verbatim>\<open>room-1\<close>; \<^verbatim>\<open>send_speak("hi")\<close> then returns without an error, leaves
  the client as it is, and writes exactly one frame, the speak message with \<^verbatim>\<open>text="hi"\<close>.
\<close>

theorem ready_then_speak:
  assumes "\<not> connected c0"
    and "json_loads L frame =
           Some (PDict [(''type'', PStr ''ready''), (''livekit_room_name'', PStr ''room-1''),
                        (''livekit_url'', PStr ''wss://x'')])"
    and "c = run L c0 [Connect ok_connect (Some stt) (Some tts) lk True, Loop_start,
                       Loop_msg (TEXT frame)]"
  shows "ready c \<and> connected c \<and> livekit_room_name c = Some ''room-1'' \<and>
         livekit_url c = Some ''wss://x'' \<and>
         send_speak Succeeds c ''hi'' True True =
           (Inr (), c,
            [Ws_send_json [(''type'', PStr ''speak''), (''text'', PStr ''hi''),
                           (''flush'', PBool True), (''allow_interruption'', PBool True)],
             Log LvDebug ''Sent'']) \<and>
         frames (snd (snd (send_speak Succeeds c ''hi'' True True))) =
           [Ws_send_json [(''type'', PStr ''speak''), (''text'', PStr ''hi''),
                          (''flush'', PBool True), (''allow_interruption'', PBool True)]]"
proof -
  let ?c1 = "c0\<lparr>session := Some ClientSession, ws := Some ClientWebSocketResponse,
                connected := True, receive_task := Some Task_created\<rparr>"
  have s1: "fst (exec L c0 (Connect ok_connect (Some stt) (Some tts) lk True)) = ?c1"
    using connect_ok [OF assms(1), of True "Some stt" "Some tts" lk]
    by (simp add: exec_def)
  have s2: "fst (exec L ?c1 Loop_start) = ?c1\<lparr>receive_task := Some Task_running\<rparr>"
    by (simp add: exec_def)
  have d: "decode_text L frame =
             Inr (In_ready \<lparr>rm_livekit_room_name = Some ''room-1'', rm_livekit_url = ''wss://x'',
                            rm_sayna_participant_identity = None,
                            rm_sayna_participant_name = None\<rparr>)"
    by (simp add: decode_text_def assms(2) built_def load_ReadyMessage_def field_literal_def
          field_opt_def field_req_def val_str_def)
  have s3: "fst (exec L (?c1\<lparr>receive_task := Some Task_running\<rparr>) (Loop_msg (TEXT frame))) =
              ?c1\<lparr>receive_task := Some Task_running, ready := True,
                   livekit_room_name := Some ''room-1'', livekit_url := Some ''wss://x'',
                   sayna_participant_identity := None, sayna_participant_name := None\<rparr>"
    by (simp add: exec_def loop_body_def fst_handle_text d fst_dispatch split: prod.split)
  have c: "c = ?c1\<lparr>receive_task := Some Task_running, ready := True,
                   livekit_room_name := Some ''room-1'', livekit_url := Some ''wss://x'',
                   sayna_participant_identity := None, sayna_participant_name := None\<rparr>"
    unfolding assms(3) run_def using s1 s2 s3 by simp
  have sp: "send_speak Succeeds c ''hi'' True True =
           (Inr (), c,
            [Ws_send_json [(''type'', PStr ''speak''), (''text'', PStr ''hi''),
                           (''flush'', PBool True), (''allow_interruption'', PBool True)],
             Log LvDebug ''Sent''])"
    unfolding c
    by (simp add: send_speak_def check_ready_def check_connected_def send_json_def
          dump_SpeakMessage_def dump_opt_def)
  show ?thesis
    using sp by (simp add: frames_def) (simp add: c)
qed

theorem ready_then_speak_witness:
  "\<not> connected (init ''wss://sayna'' (Some ''key'')) \<and>
   ready (run demo_lib (init ''wss://sayna'' (Some ''key''))
            [Connect ok_connect (Some demo_stt) (Some demo_tts) None True, Loop_start,
             Loop_msg (TEXT ''ready frame'')]) \<and>
   livekit_room_name (run demo_lib (init ''wss://sayna'' (Some ''key''))
            [Connect ok_connect (Some demo_stt) (Some demo_tts) None True, Loop_start,
             Loop_msg (TEXT ''ready frame'')]) = Some ''room-1'' \<and>
   fst (send_speak Succeeds (run demo_lib (init ''wss://sayna'' (Some ''key''))
            [Connect ok_connect (Some demo_stt) (Some demo_tts) None True, Loop_start,
             Loop_msg (TEXT ''ready frame'')]) ''hi'' True True) = Inr ()"
  using ready_then_speak [where ?c0.0 = "init ''wss://sayna'' (Some ''key'')" and L = demo_lib
      and frame = "''ready frame''" and stt = demo_stt and tts = demo_tts and lk = None, OF _ _ refl]
  by (simp add: init_def demo_lib_def)

section \<open>Frames that do not decode\<close>

lemma calls_simps:
  "calls [] = []"
  "calls (Log lv s # fx) = calls fx"
  "calls (fx @ fx') = calls fx @ calls fx'"
  by (simp_all add: calls_def)

lemma handle_text_undecodable:
  assumes "decode_text L data = Inl err"
  shows "fst (handle_text_message L c data) = c"
    and "calls (snd (handle_text_message L c data)) = []"
  using assms
  by (simp_all add: handle_text_decode received_def parse_failed_def calls_simps
        split: decode_error.split)

lemma receive_iter_cons:
  "receive_iter L c (msg # msgs) e =
     (if fst (loop_body L c msg)
      then (loop_finally (fst (snd (loop_body L c msg))), snd (snd (loop_body L c msg)))
      else (fst (receive_iter L (fst (snd (loop_body L c msg))) msgs e),
            snd (snd (loop_body L c msg))
            @ snd (receive_iter L (fst (snd (loop_body L c msg))) msgs e)))"
  by (cases "loop_body L c msg") (simp split: prod.split bool.split)

lemma missing_required_field:
  assumes "json_loads L data = Some (PDict d)"
    and "(map_of d ''type'' = Some (PStr ''ready'') \<and> map_of d ''livekit_url'' = None) \<or>
         (map_of d ''type'' = Some (PStr ''stt_result'') \<and> map_of d ''transcript'' = None) \<or>
         (map_of d ''type'' = Some (PStr ''message'') \<and> map_of d ''message'' = None) \<or>
         (map_of d ''type'' = Some (PStr ''error'') \<and> map_of d ''message'' = None) \<or>
         (map_of d ''type'' = Some (PStr ''participant_disconnected'')
            \<and> map_of d ''participant'' = None) \<or>
         (map_of d ''type'' = Some (PStr ''tts_playback_complete'')
            \<and> map_of d ''timestamp'' = None)"
  shows "decode_text L data = Inl Invalid_fields"
  using assms
  by (auto simp: decode_text_def built_def load_ReadyMessage_def load_STTResultMessage_def
        load_MessageMessage_def load_ErrorMessage_def load_ParticipantDisconnectedMessage_def
        load_TTSPlaybackCompleteMessage_def field_req_def field_literal_def
        split: option.split)

lemma calls_dispatch: "calls (snd (dispatch c m)) = expected_call c m"
  by (cases m)
     (simp_all add: dispatch_def expected_call_def handle_ready_def handle_stt_result_def
        handle_message_def handle_error_def handle_participant_disconnected_def
        handle_tts_playback_complete_def invoke_def calls_def Let_def split: option.split)

lemma handle_text_decoded:
  assumes "decode_text L data = Inr m"
  shows "handle_text_message L c data =
           (fst (dispatch c m), Log LvDebug ''Received'' # snd (dispatch c m))"
  using assms by (simp add: handle_text_decode received_def)

text \<open>
  C6. A text frame that does not decode is dropped. It does not decode when it is not JSON,
  when its discriminator is not one of the six kinds (as in \<^verbatim>\<open>{"type":"unknown_kind"}\<close>),
  or when a required field of its kind is missing. Then the handler returns (it has no
  exceptional result) with the client unchanged and no callback invoked, the iteration does
  not break, and the loop goes on with the following messages from the same state: the whole
  loop delivers exactly what it delivers without the frame. In particular a frame that
  decodes to a message and comes next is handled as if it had come first: its handler runs
  on the unchanged client, and the callback registered for its kind is invoked with it.
\<close>

theorem undecodable_frame_dropped:
  "(json_loads L data = None \<longrightarrow> decode_text L data = Inl Malformed_json) \<and>
   (json_loads L data = Some (PDict [(''type'', PStr ''unknown_kind'')])
      \<longrightarrow> decode_text L data = Inl Unknown_type) \<and>
   (json_loads L data = Some (PDict d) \<and>
    ((map_of d ''type'' = Some (PStr ''ready'') \<and> map_of d ''livekit_url'' = None) \<or>
     (map_of d ''type'' = Some (PStr ''stt_result'') \<and> map_of d ''transcript'' = None) \<or>
     (map_of d ''type'' = Some (PStr ''message'') \<and> map_of d ''message'' = None) \<or>
     (map_of d ''type'' = Some (PStr ''error'') \<and> map_of d ''message'' = None) \<or>
     (map_of d ''type'' = Some (PStr ''participant_disconnected'')
        \<and> map_of d ''participant'' = None) \<or>
     (map_of d ''type'' = Some (PStr ''tts_playback_complete'')
        \<and> map_of d ''timestamp'' = None))
      \<longrightarrow> decode_text L data = Inl Invalid_fields) \<and>
   (decode_text L data = Inl err \<longrightarrow>
      fst (handle_text_message L c data) = c \<and>
      calls (snd (handle_text_message L c data)) = [] \<and>
      loop_body L c (TEXT data) = (False, c, snd (handle_text_message L c data)) \<and>
      receive_iter L c (TEXT data # msgs) e =
        (fst (receive_iter L c msgs e),
         snd (handle_text_message L c data) @ snd (receive_iter L c msgs e)) \<and>
      calls (snd (receive_iter L c (TEXT data # msgs) e)) =
        calls (snd (receive_iter L c msgs e)) \<and>
      fst (exec L c (Loop_msg (TEXT data))) = c) \<and>
   (decode_text L data = Inl err \<and> decode_text L next_data = Inr m \<longrightarrow>
      receive_iter L c (TEXT data # TEXT next_data # msgs) e =
        (fst (receive_iter L (fst (dispatch c m)) msgs e),
         snd (handle_text_message L c data)
         @ (Log LvDebug ''Received'' # snd (dispatch c m))
         @ snd (receive_iter L (fst (dispatch c m)) msgs e)) \<and>
      calls (snd (receive_iter L c (TEXT data # TEXT next_data # msgs) e)) =
        expected_call c m @ calls (snd (receive_iter L (fst (dispatch c m)) msgs e))) \<and>
   (decode_text L data = Inl err \<and> decode_text L next_data = Inr (In_stt_result x) \<and>
    on_stt_result c = Some cb \<longrightarrow>
      snd (receive_iter L c [TEXT data, TEXT next_data] Exhausted) =
        snd (handle_text_message L c data)
        @ [Log LvDebug ''Received'', Call_on_stt_result x]
        @ (if cb_raised (cb x) then [Log LvError ''Error in STT result callback''] else []) \<and>
      calls (snd (receive_iter L c [TEXT data, TEXT next_data] Exhausted)) =
        [Call_on_stt_result x])"
proof (intro conjI impI)
  assume "json_loads L data = None"
  then show "decode_text L data = Inl Malformed_json" by (simp add: decode_text_def)
next
  assume "json_loads L data = Some (PDict [(''type'', PStr ''unknown_kind'')])"
  then show "decode_text L data = Inl Unknown_type" by (simp add: decode_text_def)
next
  assume "json_loads L data = Some (PDict d) \<and>
    ((map_of d ''type'' = Some (PStr ''ready'') \<and> map_of d ''livekit_url'' = None) \<or>
     (map_of d ''type'' = Some (PStr ''stt_result'') \<and> map_of d ''transcript'' = None) \<or>
     (map_of d ''type'' = Some (PStr ''message'') \<and> map_of d ''message'' = None) \<or>
     (map_of d ''type'' = Some (PStr ''error'') \<and> map_of d ''message'' = None) \<or>
     (map_of d ''type'' = Some (PStr ''participant_disconnected'')
        \<and> map_of d ''participant'' = None) \<or>
     (map_of d ''type'' = Some (PStr ''tts_playback_complete'')
        \<and> map_of d ''timestamp'' = None))"
  then show "decode_text L data = Inl Invalid_fields"
    using missing_required_field [of L data d] by blast
next
  assume bad: "decode_text L data = Inl err"
  note h = handle_text_undecodable [OF bad, of c]
  show "fst (handle_text_message L c data) = c" by (rule h(1))
  show "calls (snd (handle_text_message L c data)) = []" by (rule h(2))
  show lb: "loop_body L c (TEXT data) = (False, c, snd (handle_text_message L c data))"
    using h(1) by (simp add: loop_body_def prod_eq_iff)
  show "receive_iter L c (TEXT data # msgs) e =
        (fst (receive_iter L c msgs e),
         snd (handle_text_message L c data) @ snd (receive_iter L c msgs e))"
    by (simp add: receive_iter_cons lb del: receive_iter.simps)
  then show "calls (snd (receive_iter L c (TEXT data # msgs) e)) =
        calls (snd (receive_iter L c msgs e))"
    by (simp add: calls_simps h(2))
  show "fst (exec L c (Loop_msg (TEXT data))) = c"
    by (simp add: exec_def lb)
next
  assume both: "decode_text L data = Inl err \<and> decode_text L next_data = Inr m"
  then have bad: "decode_text L data = Inl err" and good: "decode_text L next_data = Inr m"
    by simp_all
  note h = handle_text_undecodable [OF bad, of c]
  have lb: "loop_body L c (TEXT data) = (False, c, snd (handle_text_message L c data))"
    using h(1) by (simp add: loop_body_def prod_eq_iff)
  have lg: "loop_body L c (TEXT next_data) =
              (False, fst (dispatch c m), Log LvDebug ''Received'' # snd (dispatch c m))"
    by (simp add: loop_body_def handle_text_decoded [OF good])
  show eq: "receive_iter L c (TEXT data # TEXT next_data # msgs) e =
        (fst (receive_iter L (fst (dispatch c m)) msgs e),
         snd (handle_text_message L c data)
         @ (Log LvDebug ''Received'' # snd (dispatch c m))
         @ snd (receive_iter L (fst (dispatch c m)) msgs e))"
    by (simp add: receive_iter_cons lb lg del: receive_iter.simps)
  show "calls (snd (receive_iter L c (TEXT data # TEXT next_data # msgs) e)) =
        expected_call c m @ calls (snd (receive_iter L (fst (dispatch c m)) msgs e))"
    unfolding eq by (simp add: calls_simps h(2) calls_dispatch)
next
  assume all: "decode_text L data = Inl err \<and> decode_text L next_data = Inr (In_stt_result x) \<and>
    on_stt_result c = Some cb"
  then have bad: "decode_text L data = Inl err"
    and good: "decode_text L next_data = Inr (In_stt_result x)"
    and reg: "on_stt_result c = Some cb"
    by simp_all
  note h = handle_text_undecodable [OF bad, of c]
  have lb: "loop_body L c (TEXT data) = (False, c, snd (handle_text_message L c data))"
    using h(1) by (simp add: loop_body_def prod_eq_iff)
  have lg: "loop_body L c (TEXT next_data) =
              (False, c, Log LvDebug ''Received'' # Call_on_stt_result x
                 # (if cb_raised (cb x) then [Log LvError ''Error in STT result callback'']
                    else []))"
    by (simp add: loop_body_def handle_text_decoded [OF good] dispatch_def
          handle_stt_result_def reg invoke_def)
  show eq: "snd (receive_iter L c [TEXT data, TEXT next_data] Exhausted) =
        snd (handle_text_message L c data)
        @ [Log LvDebug ''Received'', Call_on_stt_result x]
        @ (if cb_raised (cb x) then [Log LvError ''Error in STT result callback''] else [])"
    by (simp add: receive_iter_cons lb lg loop_exit_def del: receive_iter.simps(2))
  show "calls (snd (receive_iter L c [TEXT data, TEXT next_data] Exhausted)) =
        [Call_on_stt_result x]"
    unfolding eq by (simp add: calls_simps h(2)) (simp add: calls_def)
qed

lemma demo_decode:
  "decode_text demo_lib ''unknown_kind frame'' = Inl Unknown_type"
  "decode_text demo_lib ''not json at all'' = Inl Malformed_json"
  "decode_text demo_lib ''ready frame without livekit_url'' = Inl Invalid_fields"
  "decode_text demo_lib ''stt_result frame'' =
     Inr (In_stt_result \<lparr>sr_transcript = ''hello'', sr_is_final = True,
                         sr_is_speech_final = True, sr_confidence = 1\<rparr>)"
  "decode_text demo_lib ''ready frame'' =
     Inr (In_ready \<lparr>rm_livekit_room_name = Some ''room-1'', rm_livekit_url = ''wss://x'',
                    rm_sayna_participant_identity = None, rm_sayna_participant_name = None\<rparr>)"
  "decode_text demo_lib ''ready frame for room-2'' =
     Inr (In_ready \<lparr>rm_livekit_room_name = Some ''room-2'', rm_livekit_url = ''wss://y'',
                    rm_sayna_participant_identity = None, rm_sayna_participant_name = None\<rparr>)"
  by (simp_all add: decode_text_def demo_lib_def built_def load_ReadyMessage_def
        load_STTResultMessage_def field_req_def field_opt_def field_literal_def val_str_def
        val_bool_def val_float_def)

theorem undecodable_frame_dropped_witness:
  "decode_text demo_lib ''unknown_kind frame'' = Inl Unknown_type \<and>
   decode_text demo_lib ''stt_result frame'' =
     Inr (In_stt_result \<lparr>sr_transcript = ''hello'', sr_is_final = True,
                         sr_is_speech_final = True, sr_confidence = 1\<rparr>) \<and>
   on_stt_result (register_on_stt_result (init ''wss://x'' None) (\<lambda>m. Inr Value)) =
     Some (\<lambda>m. Inr Value) \<and>
   snd (receive_iter demo_lib (register_on_stt_result (init ''wss://x'' None) (\<lambda>m. Inr Value))
          [TEXT ''unknown_kind frame'', TEXT ''stt_result frame''] Exhausted) =
     [Log LvDebug ''Received'', Log LvWarning ''Unknown message type'',
      Log LvDebug ''Received'',
      Call_on_stt_result \<lparr>sr_transcript = ''hello'', sr_is_final = True,
                          sr_is_speech_final = True, sr_confidence = 1\<rparr>] \<and>
   calls (snd (receive_iter demo_lib
                 (register_on_stt_result (init ''wss://x'' None) (\<lambda>m. Inr Value))
                 [TEXT ''unknown_kind frame'', TEXT ''stt_result frame''] Exhausted)) =
     [Call_on_stt_result \<lparr>sr_transcript = ''hello'', sr_is_final = True,
                          sr_is_speech_final = True, sr_confidence = 1\<rparr>] \<and>
   fst (exec demo_lib
          ((register_on_stt_result (init ''wss://x'' None) (\<lambda>m. Inr Value))
             \<lparr>receive_task := Some Task_running\<rparr>)
          (Loop_msg (TEXT ''not json at all''))) =
     (register_on_stt_result (init ''wss://x'' None) (\<lambda>m. Inr Value))
       \<lparr>receive_task := Some Task_running\<rparr>"
proof -
  let ?c = "register_on_stt_result (init ''wss://x'' None) (\<lambda>m. Inr Value)"
  let ?x = "\<lparr>sr_transcript = ''hello'', sr_is_final = True, sr_is_speech_final = True,
             sr_confidence = 1\<rparr>"
  have reg: "on_stt_result ?c = Some (\<lambda>m. Inr Value)"
    by (simp add: register_on_stt_result_def)
  have h: "snd (handle_text_message demo_lib ?c ''unknown_kind frame'') =
             [Log LvDebug ''Received'', Log LvWarning ''Unknown message type'']"
    by (simp add: handle_text_decode demo_decode received_def)
  have nr: "\<not> cb_raised (Inr Value)" by (simp add: cb_raised_def)
  note T = undecodable_frame_dropped [where L = demo_lib and data = "''unknown_kind frame''"
      and err = Unknown_type and next_data = "''stt_result frame''" and x = ?x and c = ?c
      and cb = "\<lambda>m. Inr Value" and d = "[]" and msgs = "[]" and e = Exhausted
      and m = "In_stt_result ?x"]
  from T demo_decode(1) demo_decode(4) reg
  have a: "snd (receive_iter demo_lib ?c
                  [TEXT ''unknown_kind frame'', TEXT ''stt_result frame''] Exhausted) =
        snd (handle_text_message demo_lib ?c ''unknown_kind frame'')
        @ [Log LvDebug ''Received'', Call_on_stt_result ?x]
        @ (if cb_raised ((\<lambda>m. Inr Value) ?x)
           then [Log LvError ''Error in STT result callback''] else [])"
    and b: "calls (snd (receive_iter demo_lib ?c
                  [TEXT ''unknown_kind frame'', TEXT ''stt_result frame''] Exhausted)) =
        [Call_on_stt_result ?x]"
    by blast+
  from undecodable_frame_dropped [where L = demo_lib and data = "''not json at all''"
      and err = Malformed_json and c = "?c\<lparr>receive_task := Some Task_running\<rparr>"
      and d = "[]" and msgs = "[]" and e = Exhausted] demo_decode(2)
  have k: "fst (exec demo_lib (?c\<lparr>receive_task := Some Task_running\<rparr>)
                  (Loop_msg (TEXT ''not json at all''))) =
           ?c\<lparr>receive_task := Some Task_running\<rparr>"
    by blast
  have a': "snd (receive_iter demo_lib ?c
                  [TEXT ''unknown_kind frame'', TEXT ''stt_result frame''] Exhausted) =
     [Log LvDebug ''Received'', Log LvWarning ''Unknown message type'',
      Log LvDebug ''Received'', Call_on_stt_result ?x]"
    unfolding a h using nr by simp
  show ?thesis
    using demo_decode(1) demo_decode(4) reg a' b k by blast
qed

section \<open>A loop that outlives its connection\<close>

lemma disconnect_decomposed:
  "disconnect env c =
     (if \<not> connected c then (Inr (), c, [Log LvWarning ''Not connected to Sayna WebSocket''])
      else disconnect_finish env (disconnect_steps env (cancel_receive_task c)))"
  by (simp add: disconnect_def disconnect_finish_def disconnect_steps_def disconnect_body_def
        split: prod.split)

lemma demo_connect:
  "\<not> connected c \<Longrightarrow>
   fst (exec L c (Connect ok_connect None None None False)) =
     c\<lparr>session := Some ClientSession, ws := Some ClientWebSocketResponse,
       connected := True, receive_task := Some Task_created\<rparr>"
  using connect_ok [of c False None None None] by (simp add: exec_def)

lemma world_step_simps:
  "world_step L \<lparr>cl = c, detached = n\<rparr> (Outside a) =
     \<lparr>cl = fst (exec L c a), detached = n\<rparr>"
  "receive_task c = Some Task_running \<Longrightarrow> connected c \<Longrightarrow>
   world_step L \<lparr>cl = c, detached = n\<rparr> (Callback_disconnect env) =
     \<lparr>cl = fst (snd (disconnect_in_callback env c)), detached = Suc n\<rparr>"
  "world_step L \<lparr>cl = c, detached = Suc n\<rparr> (Detached_end e) =
     \<lparr>cl = detached_finally c, detached = n\<rparr>"
  by (simp_all add: world_step_def)

text \<open>
  C9. The claim is that ready implies connected in every reachable state. The code does not
  keep it when a callback reconnects. A callback registered for transcripts, on its
  invocation, awaits \<^verbatim>\<open>disconnect()\<close> and then \<^verbatim>\<open>connect(audio=False)\<close>: the loop it runs on
  is left running; when that loop's iteration over the closed socket ends, its \<^verbatim>\<open>finally\<close>
  clears \<^verbatim>\<open>_connected\<close> under the new connection; the new loop then handles the ready frame,
  and \<^verbatim>\<open>_handle_ready\<close> sets \<^verbatim>\<open>_ready\<close> without a look at \<^verbatim>\<open>_connected\<close>. The client is
  ready and not connected.
\<close>

theorem detached_loop_breaks_invariant:
  "ready (cl (world_run demo_lib
        \<lparr>cl = register_on_stt_result (init ''wss://x'' None) (\<lambda>m. Inr (Coroutine Succeeds)),
         detached = 0\<rparr>
        [Outside (Connect ok_connect None None None False),
         Outside Loop_start,
         Outside (Loop_msg (TEXT ''stt_result frame'')),
         Callback_disconnect ok_disconnect,
         Outside (Connect ok_connect None None None False),
         Detached_end Exhausted,
         Outside Loop_start,
         Outside (Loop_msg (TEXT ''ready frame''))])) \<and>
   \<not> connected (cl (world_run demo_lib
        \<lparr>cl = register_on_stt_result (init ''wss://x'' None) (\<lambda>m. Inr (Coroutine Succeeds)),
         detached = 0\<rparr>
        [Outside (Connect ok_connect None None None False),
         Outside Loop_start,
         Outside (Loop_msg (TEXT ''stt_result frame'')),
         Callback_disconnect ok_disconnect,
         Outside (Connect ok_connect None None None False),
         Detached_end Exhausted,
         Outside Loop_start,
         Outside (Loop_msg (TEXT ''ready frame''))]))"
proof -
  let ?c0 = "register_on_stt_result (init ''wss://x'' None) (\<lambda>m. Inr (Coroutine Succeeds))"
  let ?c1 = "?c0\<lparr>session := Some ClientSession, ws := Some ClientWebSocketResponse,
                connected := True, receive_task := Some Task_created\<rparr>"
  let ?c2 = "?c1\<lparr>receive_task := Some Task_running\<rparr>"
  let ?c4 = "?c2\<lparr>receive_task := None, ws := None, session := None, connected := False,
                ready := False\<rparr>"
  let ?c5 = "?c4\<lparr>session := Some ClientSession, ws := Some ClientWebSocketResponse,
                connected := True, receive_task := Some Task_created\<rparr>"
  let ?c6 = "detached_finally ?c5"
  let ?c7 = "?c6\<lparr>receive_task := Some Task_running\<rparr>"
  have n0: "\<not> connected ?c0" by (simp add: register_on_stt_result_def init_def)
  have s1: "fst (exec demo_lib ?c0 (Connect ok_connect None None None False)) = ?c1"
    by (rule demo_connect [OF n0])
  have s2: "fst (exec demo_lib ?c1 Loop_start) = ?c2" by (simp add: exec_def)
  have s3: "fst (exec demo_lib ?c2 (Loop_msg (TEXT ''stt_result frame''))) = ?c2"
    by (simp add: exec_def loop_body_def fst_handle_text demo_decode fst_dispatch)
  have s4: "fst (snd (disconnect_in_callback ok_disconnect ?c2)) = ?c4"
    by (simp add: disconnect_in_callback_def disconnect_finish_def disconnect_steps_def
          cancel_own_task_def ok_disconnect_def)
  have n4: "\<not> connected ?c4" by simp
  have s5: "fst (exec demo_lib ?c4 (Connect ok_connect None None None False)) = ?c5"
    by (rule demo_connect [OF n4])
  have s7: "fst (exec demo_lib ?c6 Loop_start) = ?c7"
    by (simp add: exec_def detached_finally_def)
  have s8: "fst (exec demo_lib ?c7 (Loop_msg (TEXT ''ready frame''))) =
              ?c7\<lparr>ready := True, livekit_room_name := Some ''room-1'',
                   livekit_url := Some ''wss://x'', sayna_participant_identity := None,
                   sayna_participant_name := None\<rparr>"
    by (simp add: exec_def loop_body_def fst_handle_text demo_decode fst_dispatch)
  have t2: "receive_task ?c2 = Some Task_running" and k2: "connected ?c2" by simp_all
  have w1: "world_step demo_lib \<lparr>cl = ?c0, detached = 0\<rparr>
              (Outside (Connect ok_connect None None None False)) = \<lparr>cl = ?c1, detached = 0\<rparr>"
    by (simp only: world_step_simps s1)
  have w2: "world_step demo_lib \<lparr>cl = ?c1, detached = 0\<rparr> (Outside Loop_start) =
              \<lparr>cl = ?c2, detached = 0\<rparr>"
    by (simp only: world_step_simps s2)
  have w3: "world_step demo_lib \<lparr>cl = ?c2, detached = 0\<rparr>
              (Outside (Loop_msg (TEXT ''stt_result frame''))) = \<lparr>cl = ?c2, detached = 0\<rparr>"
    by (simp only: world_step_simps s3)
  have w4: "world_step demo_lib \<lparr>cl = ?c2, detached = 0\<rparr> (Callback_disconnect ok_disconnect) =
              \<lparr>cl = ?c4, detached = Suc 0\<rparr>"
    by (simp only: world_step_simps(2) [OF t2 k2] s4)
  have w5: "world_step demo_lib \<lparr>cl = ?c4, detached = Suc 0\<rparr>
              (Outside (Connect ok_connect None None None False)) =
              \<lparr>cl = ?c5, detached = Suc 0\<rparr>"
    by (simp only: world_step_simps s5)
  have w6: "world_step demo_lib \<lparr>cl = ?c5, detached = Suc 0\<rparr> (Detached_end Exhausted) =
              \<lparr>cl = ?c6, detached = 0\<rparr>"
    by (simp only: world_step_simps)
  have w7: "world_step demo_lib \<lparr>cl = ?c6, detached = 0\<rparr> (Outside Loop_start) =
              \<lparr>cl = ?c7, detached = 0\<rparr>"
    by (simp only: world_step_simps s7)
  have w8: "world_step demo_lib \<lparr>cl = ?c7, detached = 0\<rparr>
              (Outside (Loop_msg (TEXT ''ready frame''))) =
              \<lparr>cl = ?c7\<lparr>ready := True, livekit_room_name := Some ''room-1'',
                          livekit_url := Some ''wss://x'', sayna_participant_identity := None,
                          sayna_participant_name := None\<rparr>, detached = 0\<rparr>"
    by (simp only: world_step_simps s8)
  have w: "world_run demo_lib \<lparr>cl = ?c0, detached = 0\<rparr>
        [Outside (Connect ok_connect None None None False),
         Outside Loop_start,
         Outside (Loop_msg (TEXT ''stt_result frame'')),
         Callback_disconnect ok_disconnect,
         Outside (Connect ok_connect None None None False),
         Detached_end Exhausted,
         Outside Loop_start,
         Outside (Loop_msg (TEXT ''ready frame''))] =
      \<lparr>cl = ?c7\<lparr>ready := True, livekit_room_name := Some ''room-1'',
                  livekit_url := Some ''wss://x'', sayna_participant_identity := None,
                  sayna_participant_name := None\<rparr>, detached = 0\<rparr>"
    by (simp only: world_run_def foldl_Cons foldl_Nil w1 w2 w3 w4 w5 w6 w7 w8)
  show ?thesis
    unfolding w by (simp add: detached_finally_def)
qed

section \<open>Callbacks that raise\<close>



















section \<open>The fields that the ready message fills\<close>

lemma sf_updates:
  "session_fields (c\<lparr>connected := a\<rparr>) = session_fields c"
  "session_fields (c\<lparr>ready := a\<rparr>) = session_fields c"
  "session_fields (c\<lparr>receive_task := t\<rparr>) = session_fields c"
  "session_fields (c\<lparr>ws := w\<rparr>) = session_fields c"
  "session_fields (c\<lparr>session := s\<rparr>) = session_fields c"
  by (simp_all add: session_fields_def)

lemma sf_connect: "session_fields (fst (snd (connect env c s t k au))) = session_fields c"
  by (simp add: connect_def connect_failed_def send_json_def check_connected_def Let_def
        sf_updates split: outcome.split)

lemma sf_cancel:
  "session_fields (fst (cancel_receive_task c)) = session_fields c"
  "session_fields (fst (cancel_own_task c)) = session_fields c"
  by (simp_all add: cancel_receive_task_def cancel_own_task_def loop_finally_def sf_updates
        split: option.split task.split)

lemma sf_disconnect_steps:
  "session_fields (fst (snd (disconnect_steps env (c1, fx1)))) = session_fields c1"
  by (simp add: disconnect_steps_def Let_def sf_updates split: outcome.split)

lemma sf_disconnect_finish:
  "session_fields (fst (snd (disconnect_finish env body))) = session_fields (fst (snd body))"
  by (cases body) (simp add: disconnect_finish_def split: sum.split outcome.split)

lemma sf_disconnect: "session_fields (fst (snd (disconnect env c))) = session_fields c"
  using sf_disconnect_steps [of env "fst (cancel_receive_task c)" "snd (cancel_receive_task c)"]
  by (simp add: disconnect_decomposed sf_disconnect_finish sf_cancel)

lemma sf_disconnect_in_callback:
  "session_fields (fst (snd (disconnect_in_callback env c))) = session_fields c"
  using sf_disconnect_steps [of env "fst (cancel_own_task c)" "snd (cancel_own_task c)"]
  by (simp add: disconnect_in_callback_def sf_disconnect_finish sf_cancel)

lemma sf_register:
  "session_fields (register_on_ready c r) = session_fields c"
  "session_fields (register_on_stt_result c s) = session_fields c"
  "session_fields (register_on_message c m) = session_fields c"
  "session_fields (register_on_error c e) = session_fields c"
  "session_fields (register_on_participant_disconnected c p) = session_fields c"
  "session_fields (register_on_tts_playback_complete c t) = session_fields c"
  "session_fields (register_on_audio c a) = session_fields c"
  by (simp_all add: session_fields_def register_on_ready_def register_on_stt_result_def
        register_on_message_def register_on_error_def register_on_participant_disconnected_def
        register_on_tts_playback_complete_def register_on_audio_def)

lemma sf_finally:
  "session_fields (loop_finally c) = session_fields c"
  "session_fields (detached_finally c) = session_fields c"
  "session_fields (fst (loop_exit e c)) = session_fields c"
  by (simp_all add: loop_finally_def detached_finally_def loop_exit_def sf_updates)

lemma sf_handle_text:
  "session_fields (fst (handle_text_message L c data)) =
     (case decode_text L data of
        Inr (In_ready m) \<Rightarrow> ready_fields m
      | _ \<Rightarrow> session_fields c)"
  by (simp add: fst_handle_text fst_dispatch session_fields_def ready_fields_def
        split: sum.split inbound.split)

lemma sf_loop_body:
  "\<not> is_ready_frame L msg \<Longrightarrow>
   session_fields (fst (snd (loop_body L c msg))) = session_fields c"
  by (cases msg)
     (simp_all add: loop_body_def is_ready_frame_def sf_handle_text handle_binary_message_def
        split: sum.splits inbound.splits)

lemma sf_exec:
  assumes "\<forall>msg. a = Loop_msg msg \<longrightarrow> \<not> is_ready_frame L msg"
  shows "session_fields (fst (exec L c a)) = session_fields c"
proof (cases a)
  case (Loop_msg msg)
  with assms have n: "\<not> is_ready_frame L msg" by simp
  obtain b c1 fx where lb: "loop_body L c msg = (b, c1, fx)"
    by (cases "loop_body L c msg")
  from sf_loop_body [OF n, of c] lb have "session_fields c1 = session_fields c" by simp
  then show ?thesis by (cases b) (simp_all add: exec_def Loop_msg lb sf_finally)
qed (simp_all add: exec_def sf_connect sf_disconnect send_state sf_register sf_finally
       sf_updates)

lemma sf_world_step:
  assumes "\<not> carries_ready L s"
  shows "session_fields (cl (world_step L w s)) = session_fields (cl w)"
proof (cases s)
  case (Outside a)
  with assms have "\<forall>msg. a = Loop_msg msg \<longrightarrow> \<not> is_ready_frame L msg"
    by (auto simp: carries_ready_def)
  from sf_exec [OF this] show ?thesis by (simp add: world_step_def Outside)
next
  case (Callback_disconnect env)
  then show ?thesis by (simp add: world_step_def sf_disconnect_in_callback)
next
  case (Detached_msg msg)
  with assms have n: "\<not> is_ready_frame L msg" by (simp add: carries_ready_def)
  obtain b c1 fx where lb: "loop_body L (cl w) msg = (b, c1, fx)"
    by (cases "loop_body L (cl w) msg")
  from sf_loop_body [OF n, of "cl w"] lb have "session_fields c1 = session_fields (cl w)"
    by simp
  then show ?thesis by (cases b) (simp_all add: world_step_def Detached_msg lb sf_finally)
next
  case (Detached_end e)
  then show ?thesis by (simp add: world_step_def sf_finally)
qed

lemma sf_world_run:
  "\<forall>s\<in>set steps. \<not> carries_ready L s \<Longrightarrow>
   session_fields (cl (world_run L w steps)) = session_fields (cl w)"
  unfolding world_run_def
  by (induction steps arbitrary: w) (simp_all add: sf_world_step)

lemma run_snoc: "run L c (acts @ [a]) = fst (exec L (run L c acts) a)"
  by (simp add: run_def)

text \<open>
  C5, as the claim is stated, fails on the code: after a ready frame and a \<^verbatim>\<open>disconnect\<close> on
  which every step succeeds the four fields still hold the values of the ready frame; a
  second ready frame overwrites them; and the exit of the loop on a transport error leaves
  them as they are.
\<close>

theorem session_fields_not_reset_counterexample:
  "fst (disconnect ok_disconnect
          (run demo_lib (init ''wss://x'' None)
             [Connect ok_connect None None None False, Loop_start,
              Loop_msg (TEXT ''ready frame'')])) = Inr () \<and>
   \<not> connected (fst (snd (disconnect ok_disconnect
          (run demo_lib (init ''wss://x'' None)
             [Connect ok_connect None None None False, Loop_start,
              Loop_msg (TEXT ''ready frame'')])))) \<and>
   session_fields (fst (snd (disconnect ok_disconnect
          (run demo_lib (init ''wss://x'' None)
             [Connect ok_connect None None None False, Loop_start,
              Loop_msg (TEXT ''ready frame'')])))) =
     (Some ''room-1'', Some ''wss://x'', None, None) \<and>
   livekit_room_name (fst (snd (disconnect ok_disconnect
          (run demo_lib (init ''wss://x'' None)
             [Connect ok_connect None None None False, Loop_start,
              Loop_msg (TEXT ''ready frame'')])))) \<noteq> None \<and>
   session_fields (run demo_lib (init ''wss://x'' None)
          ([Connect ok_connect None None None False, Loop_start,
            Loop_msg (TEXT ''ready frame'')] @ [Loop_msg (TEXT ''ready frame for room-2'')])) =
     (Some ''room-2'', Some ''wss://y'', None, None) \<and>
   session_fields (run demo_lib (init ''wss://x'' None)
          ([Connect ok_connect None None None False, Loop_start,
            Loop_msg (TEXT ''ready frame'')] @ [Loop_end (Failed OtherException)])) =
     (Some ''room-1'', Some ''wss://x'', None, None)"
proof -
  let ?c = "(init ''wss://x'' None)
     \<lparr>ws := Some ClientWebSocketResponse, session := Some ClientSession, connected := True,
      ready := True, receive_task := Some Task_running, livekit_room_name := Some ''room-1'',
      livekit_url := Some ''wss://x''\<rparr>"
  have d: "disconnect ok_disconnect ?c =
             (Inr (),
              ?c\<lparr>connected := False, ready := False, receive_task := None, ws := None,
                  session := None\<rparr>,
              [Task_cancel, Log LvDebug ''Receive loop cancelled'', Ws_close, Session_close,
               Log LvInfo ''Disconnected from Sayna WebSocket'', Http_close])"
    by (simp add: disconnect_def disconnect_body_def cancel_receive_task_def loop_finally_def
          ok_disconnect_def init_def)
  have r2: "session_fields (fst (exec demo_lib ?c (Loop_msg (TEXT ''ready frame for room-2'')))) =
              (Some ''room-2'', Some ''wss://y'', None, None)"
    by (simp add: exec_def loop_body_def sf_handle_text demo_decode ready_fields_def init_def)
  have e: "session_fields (fst (exec demo_lib ?c (Loop_end (Failed OtherException)))) =
              (Some ''room-1'', Some ''wss://x'', None, None)"
    by (simp add: exec_def sf_finally init_def) (simp add: session_fields_def)
  show ?thesis
    unfolding run_snoc demo_ready_state d
    using r2 e by (simp add: session_fields_def init_def)
qed

text \<open>
  C5, amended. The four fields are unset on a new client and stay unset as long as no ready
  frame is handled. The handling of a ready frame sets them to the values of that frame,
  whatever they were. Nothing else writes them: every other step (connect, disconnect from
  outside or from a callback, the send operations, registrations, the steps of the loop on
  any other message, the exit of a loop on a transport error or close) leaves them as they
  are; they are not reset.
\<close>

theorem session_fields_written_by_ready_only:
  "session_fields (init u k) = (None, None, None, None) \<and>
   ((\<forall>s\<in>set steps. \<not> carries_ready L s) \<longrightarrow>
      session_fields (cl (world_run L \<lparr>cl = init u k, detached = n\<rparr> steps)) =
        (None, None, None, None)) \<and>
   (decode_text L data = Inr (In_ready m) \<longrightarrow>
      session_fields (fst (handle_text_message L c data)) = ready_fields m) \<and>
   (\<not> carries_ready L s \<longrightarrow>
      session_fields (cl (world_step L w s)) = session_fields (cl w)) \<and>
   session_fields (fst (snd (disconnect env c))) = session_fields c \<and>
   session_fields (fst (snd (disconnect_in_callback env c))) = session_fields c \<and>
   session_fields (fst (loop_exit e c)) = session_fields c \<and>
   session_fields (detached_finally c) = session_fields c"
proof (intro conjI impI)
  show i: "session_fields (init u k) = (None, None, None, None)"
    by (simp add: session_fields_def init_def)
  assume "\<forall>s\<in>set steps. \<not> carries_ready L s"
  from sf_world_run [OF this, of "\<lparr>cl = init u k, detached = n\<rparr>"] i
  show "session_fields (cl (world_run L \<lparr>cl = init u k, detached = n\<rparr> steps)) =
        (None, None, None, None)"
    by simp
next
  assume "decode_text L data = Inr (In_ready m)"
  then show "session_fields (fst (handle_text_message L c data)) = ready_fields m"
    by (simp add: sf_handle_text)
next
  assume "\<not> carries_ready L s"
  then show "session_fields (cl (world_step L w s)) = session_fields (cl w)"
    by (rule sf_world_step)
qed (simp_all add: sf_disconnect sf_disconnect_in_callback sf_finally)

theorem session_fields_written_by_ready_only_witness:
  "\<not> carries_ready demo_lib (Outside (Connect ok_connect None None None False)) \<and>
   \<not> carries_ready demo_lib (Outside Loop_start) \<and>
   \<not> carries_ready demo_lib (Outside (Loop_msg (TEXT ''stt_result frame''))) \<and>
   \<not> carries_ready demo_lib (Outside (Disconnect ok_disconnect)) \<and>
   session_fields (cl (world_run demo_lib \<lparr>cl = init ''wss://x'' None, detached = 0\<rparr>
       [Outside (Connect ok_connect None None None False), Outside Loop_start,
        Outside (Loop_msg (TEXT ''stt_result frame'')),
        Outside (Disconnect ok_disconnect)])) = (None, None, None, None) \<and>
   decode_text demo_lib ''ready frame for room-2'' =
     Inr (In_ready \<lparr>rm_livekit_room_name = Some ''room-2'', rm_livekit_url = ''wss://y'',
                    rm_sayna_participant_identity = None, rm_sayna_participant_name = None\<rparr>) \<and>
   session_fields (fst (handle_text_message demo_lib
       ((init ''wss://x'' None)\<lparr>livekit_room_name := Some ''room-1''\<rparr>)
       ''ready frame for room-2'')) = (Some ''room-2'', Some ''wss://y'', None, None)"
proof -
  have n: "\<not> carries_ready demo_lib (Outside (Connect ok_connect None None None False))"
    "\<not> carries_ready demo_lib (Outside Loop_start)"
    "\<not> carries_ready demo_lib (Outside (Loop_msg (TEXT ''stt_result frame'')))"
    "\<not> carries_ready demo_lib (Outside (Disconnect ok_disconnect))"
    by (simp_all add: carries_ready_def is_ready_frame_def demo_decode)
  then have na: "\<forall>s\<in>set [Outside (Connect ok_connect None None None False), Outside Loop_start,
              Outside (Loop_msg (TEXT ''stt_result frame'')),
              Outside (Disconnect ok_disconnect)]. \<not> carries_ready demo_lib s"
    by simp
  note T = session_fields_written_by_ready_only [where L = demo_lib and u = "''wss://x''"
      and k = None and n = 0 and data = "''ready frame for room-2''"
      and c = "(init ''wss://x'' None)\<lparr>livekit_room_name := Some ''room-1''\<rparr>"
      and m = "\<lparr>rm_livekit_room_name = Some ''room-2'', rm_livekit_url = ''wss://y'',
                 rm_sayna_participant_identity = None, rm_sayna_participant_name = None\<rparr>"
      and steps = "[Outside (Connect ok_connect None None None False), Outside Loop_start,
              Outside (Loop_msg (TEXT ''stt_result frame'')),
              Outside (Disconnect ok_disconnect)]"]
  from T na have a: "session_fields (cl (world_run demo_lib
       \<lparr>cl = init ''wss://x'' None, detached = 0\<rparr>
       [Outside (Connect ok_connect None None None False), Outside Loop_start,
        Outside (Loop_msg (TEXT ''stt_result frame'')),
        Outside (Disconnect ok_disconnect)])) = (None, None, None, None)"
    by blast
  from T demo_decode(6) have b: "session_fields (fst (handle_text_message demo_lib
       ((init ''wss://x'' None)\<lparr>livekit_room_name := Some ''room-1''\<rparr>)
       ''ready frame for room-2'')) =
     ready_fields \<lparr>rm_livekit_room_name = Some ''room-2'', rm_livekit_url = ''wss://y'',
                   rm_sayna_participant_identity = None, rm_sayna_participant_name = None\<rparr>"
    by blast
  show ?thesis
    using n a demo_decode(6) b by (simp add: ready_fields_def)
qed

section \<open>Failures during disconnect\<close>












section \<open>Encoding and decoding of the outgoing messages\<close>

lemma val_all_Pronunciation:
  "val_all val_Pronunciation (map dump_Pronunciation ps) = Some ps"
proof (induction ps)
  case Nil
  show ?case by simp
next
  case (Cons p ps)
  have "val_Pronunciation (dump_Pronunciation p) = Some p"
    by (cases p) (simp add: val_Pronunciation_def dump_Pronunciation_def field_req_def val_str_def)
  with Cons show ?case by simp
qed

lemma val_all_str: "val_all val_str (map PStr xs) = Some xs"
  by (induction xs) (simp_all add: val_str_def)

lemma val_STTConfig_dump: "val_STTConfig L (dump_STTConfig s) = Some s"
  by (cases s)
     (simp add: val_STTConfig_def dump_STTConfig_def field_req_def val_str_def val_int_def
        val_bool_def)

lemma val_TTSConfig_dump: "val_TTSConfig L (dump_TTSConfig t) = Some t"
  by (cases t)
     (simp add: val_TTSConfig_def dump_TTSConfig_def field_req_def field_dflt_def val_str_def
        val_int_def val_float_def val_list_def val_all_Pronunciation)

lemma field_opt_alt:
  "field_opt val dflt d k =
     (case map_of d k of
        None \<Rightarrow> Some dflt
      | Some v \<Rightarrow> if v = PNone then Some None else map_option Some (val v))"
  by (simp add: field_opt_def split: option.split pyval.split)

lemma dump_opt_simps:
  "dump_opt k f None = []"
  "dump_opt k f (Some x) = [(k, f x)]"
  by (simp_all add: dump_opt_def)

lemma dump_not_None:
  "dump_STTConfig s \<noteq> PNone" "dump_TTSConfig t \<noteq> PNone" "dump_LiveKitConfig k \<noteq> PNone"
  by (simp_all add: dump_STTConfig_def dump_TTSConfig_def dump_LiveKitConfig_def)

lemma val_LiveKitConfig_dump:
  "val_LiveKitConfig L (dump_LiveKitConfig k) = Some (livekit_defaults k)"
  by (cases "lk_enable_recording k"; cases "lk_recording_file_key k";
      cases "lk_sayna_participant_identity k"; cases "lk_sayna_participant_name k";
      cases "lk_listen_participants k"; cases k)
     (simp_all add: val_LiveKitConfig_def dump_LiveKitConfig_def livekit_defaults_def
        or_default_def field_req_def field_opt_alt dump_opt_simps val_str_def val_bool_def
        val_list_def val_all_str)

lemma load_SpeakMessage_dump: "load_SpeakMessage L (dump_SpeakMessage m) = Some m"
  by (cases "sp_flush m"; cases "sp_allow_interruption m"; cases m)
     (simp_all add: load_SpeakMessage_def dump_SpeakMessage_def field_literal_def field_req_def
        field_opt_alt dump_opt_simps val_str_def val_bool_def)

lemma load_ClearMessage_dump: "load_ClearMessage (dump_ClearMessage m) = Some m"
  by (cases m) (simp add: load_ClearMessage_def dump_ClearMessage_def field_literal_def)

lemma load_SendMessageMessage_dump:
  "load_SendMessageMessage (dump_SendMessageMessage m) = Some m"
  by (cases "sm_topic m"; cases "sm_debug m"; cases m)
     (simp_all add: load_SendMessageMessage_def dump_SendMessageMessage_def field_literal_def
        field_req_def field_opt_alt dump_opt_simps val_str_def val_dict_def)

lemma load_ConfigMessage_dump:
  "load_ConfigMessage L (dump_ConfigMessage m) = Some (config_defaults m)"
  by (cases "cfg_audio m"; cases "cfg_stt_config m"; cases "cfg_tts_config m";
      cases "cfg_livekit m"; cases m)
     (simp_all add: load_ConfigMessage_def dump_ConfigMessage_def config_defaults_def
        or_default_def field_literal_def field_opt_alt dump_opt_simps val_bool_def
        val_STTConfig_dump val_TTSConfig_dump val_LiveKitConfig_dump dump_not_None)

lemma livekit_defaults_fields:
  "lk_room_name (livekit_defaults k) = lk_room_name k"
  "lk_recording_file_key (livekit_defaults k) = lk_recording_file_key k"
  "lk_enable_recording k \<noteq> None \<Longrightarrow>
     lk_enable_recording (livekit_defaults k) = lk_enable_recording k"
  "lk_sayna_participant_identity k \<noteq> None \<Longrightarrow>
     lk_sayna_participant_identity (livekit_defaults k) = lk_sayna_participant_identity k"
  "lk_sayna_participant_name k \<noteq> None \<Longrightarrow>
     lk_sayna_participant_name (livekit_defaults k) = lk_sayna_participant_name k"
  "lk_listen_participants k \<noteq> None \<Longrightarrow>
     lk_listen_participants (livekit_defaults k) = lk_listen_participants k"
  by (auto simp: livekit_defaults_def or_default_def)

lemma livekit_defaults_id:
  "lk_enable_recording k \<noteq> None \<Longrightarrow> lk_sayna_participant_identity k \<noteq> None \<Longrightarrow>
   lk_sayna_participant_name k \<noteq> None \<Longrightarrow> lk_listen_participants k \<noteq> None \<Longrightarrow>
   livekit_defaults k = k"
  by (cases k) (auto simp: livekit_defaults_def or_default_def)

lemma config_defaults_fields:
  "cfg_audio m \<noteq> None \<Longrightarrow> cfg_audio (config_defaults m) = cfg_audio m"
  "cfg_stt_config (config_defaults m) = cfg_stt_config m"
  "cfg_tts_config (config_defaults m) = cfg_tts_config m"
  "cfg_livekit (config_defaults m) = map_option livekit_defaults (cfg_livekit m)"
  by (auto simp: config_defaults_def or_default_def)

lemma config_defaults_id:
  "cfg_audio m \<noteq> None \<Longrightarrow> (\<forall>k. cfg_livekit m = Some k \<longrightarrow> livekit_defaults k = k) \<Longrightarrow>
   config_defaults m = m"
  by (cases m; cases "cfg_livekit m") (auto simp: config_defaults_def or_default_def)

lemma absent_SpeakMessage:
  "sp_flush m = None \<Longrightarrow> map_of (dump_SpeakMessage m) ''flush'' = None"
  "sp_allow_interruption m = None \<Longrightarrow>
     map_of (dump_SpeakMessage m) ''allow_interruption'' = None"
  "PNone \<notin> snd ` set (dump_SpeakMessage m)"
  by (cases "sp_flush m"; cases "sp_allow_interruption m";
      simp add: dump_SpeakMessage_def dump_opt_simps)+

lemma absent_SendMessageMessage:
  "sm_topic m = None \<Longrightarrow> map_of (dump_SendMessageMessage m) ''topic'' = None"
  "sm_debug m = None \<Longrightarrow> map_of (dump_SendMessageMessage m) ''debug'' = None"
  "PNone \<notin> snd ` set (dump_SendMessageMessage m)"
  by (cases "sm_topic m"; cases "sm_debug m";
      simp add: dump_SendMessageMessage_def dump_opt_simps)+

lemma absent_ConfigMessage:
  "cfg_audio m = None \<Longrightarrow> map_of (dump_ConfigMessage m) ''audio'' = None"
  "cfg_stt_config m = None \<Longrightarrow> map_of (dump_ConfigMessage m) ''stt_config'' = None"
  "cfg_tts_config m = None \<Longrightarrow> map_of (dump_ConfigMessage m) ''tts_config'' = None"
  "cfg_livekit m = None \<Longrightarrow> map_of (dump_ConfigMessage m) ''livekit'' = None"
  "PNone \<notin> snd ` set (dump_ConfigMessage m)"
  by (cases "cfg_audio m"; cases "cfg_stt_config m"; cases "cfg_tts_config m";
      cases "cfg_livekit m";
      simp add: dump_ConfigMessage_def dump_opt_simps dump_not_None dump_not_None [symmetric])+

lemma absent_LiveKitConfig:
  "case dump_LiveKitConfig k of
     PDict d \<Rightarrow>
       (lk_enable_recording k = None \<longrightarrow> map_of d ''enable_recording'' = None) \<and>
       (lk_recording_file_key k = None \<longrightarrow> map_of d ''recording_file_key'' = None) \<and>
       (lk_sayna_participant_identity k = None
          \<longrightarrow> map_of d ''sayna_participant_identity'' = None) \<and>
       (lk_sayna_participant_name k = None \<longrightarrow> map_of d ''sayna_participant_name'' = None) \<and>
       (lk_listen_participants k = None \<longrightarrow> map_of d ''listen_participants'' = None) \<and>
       PNone \<notin> snd ` set d
   | _ \<Rightarrow> False"
  by (cases "lk_enable_recording k"; cases "lk_recording_file_key k";
      cases "lk_sayna_participant_identity k"; cases "lk_sayna_participant_name k";
      cases "lk_listen_participants k")
     (simp_all add: dump_LiveKitConfig_def dump_opt_simps)

text \<open>
  C8. For each of the four outgoing messages, the encoding (\<^verbatim>\<open>model_dump(exclude_none=True)\<close>)
  decodes through the schema, and the decoded message has, in every field that was set, the
  value it was set to; this holds of the fields of the message and of the fields of the
  configuration objects inside a config message. A field that was left unset (None) is absent
  from the encoding, and no encoding holds a null. What the decoding puts in a field that was
  left unset is the field's default: None for the fields of speak and send_message, so that
  these two and clear decode to the message itself; for config, \<^verbatim>\<open>audio\<close> and four fields of
  the LiveKit configuration have other defaults, and the config message decodes to itself as
  soon as those are set.
\<close>

theorem outbound_roundtrip:
  "load_SpeakMessage L (dump_SpeakMessage sp) = Some sp \<and>
   load_ClearMessage (dump_ClearMessage cm) = Some cm \<and>
   load_SendMessageMessage (dump_SendMessageMessage sm) = Some sm \<and>
   load_ConfigMessage L (dump_ConfigMessage cfg) = Some (config_defaults cfg) \<and>
   (cfg_audio cfg \<noteq> None \<longrightarrow> cfg_audio (config_defaults cfg) = cfg_audio cfg) \<and>
   cfg_stt_config (config_defaults cfg) = cfg_stt_config cfg \<and>
   cfg_tts_config (config_defaults cfg) = cfg_tts_config cfg \<and>
   cfg_livekit (config_defaults cfg) = map_option livekit_defaults (cfg_livekit cfg) \<and>
   lk_room_name (livekit_defaults k) = lk_room_name k \<and>
   lk_recording_file_key (livekit_defaults k) = lk_recording_file_key k \<and>
   (lk_enable_recording k \<noteq> None \<longrightarrow>
      lk_enable_recording (livekit_defaults k) = lk_enable_recording k) \<and>
   (lk_sayna_participant_identity k \<noteq> None \<longrightarrow>
      lk_sayna_participant_identity (livekit_defaults k) = lk_sayna_participant_identity k) \<and>
   (lk_sayna_participant_name k \<noteq> None \<longrightarrow>
      lk_sayna_participant_name (livekit_defaults k) = lk_sayna_participant_name k) \<and>
   (lk_listen_participants k \<noteq> None \<longrightarrow>
      lk_listen_participants (livekit_defaults k) = lk_listen_participants k) \<and>
   (cfg_audio cfg \<noteq> None \<and>
    (\<forall>k. cfg_livekit cfg = Some k \<longrightarrow>
       lk_enable_recording k \<noteq> None \<and> lk_sayna_participant_identity k \<noteq> None \<and>
       lk_sayna_participant_name k \<noteq> None \<and> lk_listen_participants k \<noteq> None) \<longrightarrow>
      load_ConfigMessage L (dump_ConfigMessage cfg) = Some cfg) \<and>
   (sp_flush sp = None \<longrightarrow> map_of (dump_SpeakMessage sp) ''flush'' = None) \<and>
   (sp_allow_interruption sp = None \<longrightarrow>
      map_of (dump_SpeakMessage sp) ''allow_interruption'' = None) \<and>
   (sm_topic sm = None \<longrightarrow> map_of (dump_SendMessageMessage sm) ''topic'' = None) \<and>
   (sm_debug sm = None \<longrightarrow> map_of (dump_SendMessageMessage sm) ''debug'' = None) \<and>
   (cfg_audio cfg = None \<longrightarrow> map_of (dump_ConfigMessage cfg) ''audio'' = None) \<and>
   (cfg_stt_config cfg = None \<longrightarrow> map_of (dump_ConfigMessage cfg) ''stt_config'' = None) \<and>
   (cfg_tts_config cfg = None \<longrightarrow> map_of (dump_ConfigMessage cfg) ''tts_config'' = None) \<and>
   (cfg_livekit cfg = None \<longrightarrow> map_of (dump_ConfigMessage cfg) ''livekit'' = None) \<and>
   (case dump_LiveKitConfig k of
      PDict d \<Rightarrow>
        (lk_enable_recording k = None \<longrightarrow> map_of d ''enable_recording'' = None) \<and>
        (lk_recording_file_key k = None \<longrightarrow> map_of d ''recording_file_key'' = None) \<and>
        (lk_sayna_participant_identity k = None
           \<longrightarrow> map_of d ''sayna_participant_identity'' = None) \<and>
        (lk_sayna_participant_name k = None \<longrightarrow> map_of d ''sayna_participant_name'' = None) \<and>
        (lk_listen_participants k = None \<longrightarrow> map_of d ''listen_participants'' = None) \<and>
        PNone \<notin> snd ` set d
    | _ \<Rightarrow> False) \<and>
   PNone \<notin> snd ` set (dump_SpeakMessage sp) \<and>
   PNone \<notin> snd ` set (dump_ClearMessage cm) \<and>
   PNone \<notin> snd ` set (dump_SendMessageMessage sm) \<and>
   PNone \<notin> snd ` set (dump_ConfigMessage cfg)"
proof (intro conjI impI)
  assume a: "cfg_audio cfg \<noteq> None \<and>
    (\<forall>k. cfg_livekit cfg = Some k \<longrightarrow>
       lk_enable_recording k \<noteq> None \<and> lk_sayna_participant_identity k \<noteq> None \<and>
       lk_sayna_participant_name k \<noteq> None \<and> lk_listen_participants k \<noteq> None)"
  then have "\<forall>k. cfg_livekit cfg = Some k \<longrightarrow> livekit_defaults k = k"
    by (simp add: livekit_defaults_id)
  with a have "config_defaults cfg = cfg" by (simp add: config_defaults_id)
  then show "load_ConfigMessage L (dump_ConfigMessage cfg) = Some cfg"
    by (simp add: load_ConfigMessage_dump)
next
  show "case dump_LiveKitConfig k of
      PDict d \<Rightarrow>
        (lk_enable_recording k = None \<longrightarrow> map_of d ''enable_recording'' = None) \<and>
        (lk_recording_file_key k = None \<longrightarrow> map_of d ''recording_file_key'' = None) \<and>
        (lk_sayna_participant_identity k = None
           \<longrightarrow> map_of d ''sayna_participant_identity'' = None) \<and>
        (lk_sayna_participant_name k = None \<longrightarrow> map_of d ''sayna_participant_name'' = None) \<and>
        (lk_listen_participants k = None \<longrightarrow> map_of d ''listen_participants'' = None) \<and>
        PNone \<notin> snd ` set d
    | _ \<Rightarrow> False"
    by (rule absent_LiveKitConfig)
  show "PNone \<notin> snd ` set (dump_ClearMessage cm)"
    by (simp add: dump_ClearMessage_def)
qed (simp_all add: load_SpeakMessage_dump load_ClearMessage_dump load_SendMessageMessage_dump
       load_ConfigMessage_dump livekit_defaults_fields config_defaults_fields
       absent_SpeakMessage absent_SendMessageMessage absent_ConfigMessage)

theorem outbound_roundtrip_witness:
  "sp_flush \<lparr>sp_text = ''hi'', sp_flush = None, sp_allow_interruption = Some True\<rparr> = None \<and>
   dump_SpeakMessage \<lparr>sp_text = ''hi'', sp_flush = None, sp_allow_interruption = Some True\<rparr> =
     [(''type'', PStr ''speak''), (''text'', PStr ''hi''), (''allow_interruption'', PBool True)] \<and>
   map_of (dump_SpeakMessage
             \<lparr>sp_text = ''hi'', sp_flush = None, sp_allow_interruption = Some True\<rparr>)
     ''flush'' = None \<and>
   load_SpeakMessage demo_lib
     [(''type'', PStr ''speak''), (''text'', PStr ''hi''), (''allow_interruption'', PBool True)] =
     Some \<lparr>sp_text = ''hi'', sp_flush = None, sp_allow_interruption = Some True\<rparr> \<and>
   cfg_audio \<lparr>cfg_audio = Some True, cfg_stt_config = Some demo_stt,
              cfg_tts_config = Some demo_tts, cfg_livekit = None\<rparr> \<noteq> None \<and>
   load_ConfigMessage demo_lib
     (dump_ConfigMessage \<lparr>cfg_audio = Some True, cfg_stt_config = Some demo_stt,
                          cfg_tts_config = Some demo_tts, cfg_livekit = None\<rparr>) =
     Some \<lparr>cfg_audio = Some True, cfg_stt_config = Some demo_stt,
           cfg_tts_config = Some demo_tts, cfg_livekit = None\<rparr> \<and>
   map_of (dump_ConfigMessage \<lparr>cfg_audio = Some True, cfg_stt_config = Some demo_stt,
                               cfg_tts_config = Some demo_tts, cfg_livekit = None\<rparr>)
     ''livekit'' = None"
proof -
  let ?sp = "\<lparr>sp_text = ''hi'', sp_flush = None, sp_allow_interruption = Some True\<rparr>"
  let ?cfg = "\<lparr>cfg_audio = Some True, cfg_stt_config = Some demo_stt,
               cfg_tts_config = Some demo_tts, cfg_livekit = None\<rparr>"
  have d: "dump_SpeakMessage ?sp =
     [(''type'', PStr ''speak''), (''text'', PStr ''hi''), (''allow_interruption'', PBool True)]"
    by (simp add: dump_SpeakMessage_def dump_opt_simps)
  have h: "sp_flush ?sp = None" "cfg_livekit ?cfg = None"
    "cfg_audio ?cfg \<noteq> None \<and>
     (\<forall>k. cfg_livekit ?cfg = Some k \<longrightarrow>
        lk_enable_recording k \<noteq> None \<and> lk_sayna_participant_identity k \<noteq> None \<and>
        lk_sayna_participant_name k \<noteq> None \<and> lk_listen_participants k \<noteq> None)"
    by simp_all
  note T = outbound_roundtrip [where L = demo_lib and sp = ?sp and cfg = ?cfg]
  from T h have a: "map_of (dump_SpeakMessage ?sp) ''flush'' = None"
    and b: "load_SpeakMessage demo_lib (dump_SpeakMessage ?sp) = Some ?sp"
    and c: "load_ConfigMessage demo_lib (dump_ConfigMessage ?cfg) = Some ?cfg"
    and e: "map_of (dump_ConfigMessage ?cfg) ''livekit'' = None"
    by blast+
  show ?thesis
    using h(1) d a b [unfolded d] c e by simp
qed

end
